theory Spec2Isabelle
  imports Main "HOL-Library.Word" "HOL-Library.Multiset" "HOL-Library.Mapping"
begin

section \<open>Envelope cipher (internal/crypto)\<close>

text \<open>
  Byte slices are lists of 8-bit words. A Go string is a byte sequence; \<open>[]byte(s)\<close> is
  modelled by \<open>bytes_of\<close>.
\<close>

type_synonym byte = "8 word"
type_synonym bytes = "byte list"

definition bytes_of :: "string \<Rightarrow> bytes" where
  "bytes_of s = map (\<lambda>c. of_nat (of_char c)) s"

definition KeySize :: nat where "KeySize = 32"
definition SaltSize :: nat where "SaltSize = 32"
definition NonceSize :: nat where "NonceSize = 12"
definition PBKDF2Iterations :: nat where "PBKDF2Iterations = 100000"

text \<open>
  The errors the package can return: its two sentinels, the key-size error of
  \<open>aes.NewCipher\<close>, and the error of the random source.
\<close>

datatype crypto_error =
    ErrInvalidCiphertext
  | ErrDecryptionFailed
  | KeySizeError nat
  | RandError

subsection \<open>The library primitives the package calls\<close>

text \<open>
  PBKDF2 and AES-GCM live in the Go libraries, not in the repository. They are taken as
  parameters: \<open>pbkdf2_Key password salt iterations keyLen\<close>, and the AEAD of a key as
  \<open>gcm_Seal key nonce plaintext additionalData\<close> (ciphertext followed by the tag) and
  \<open>gcm_Open key nonce ciphertext additionalData\<close> (\<open>None\<close> when authentication fails).
\<close>

record primitives =
  pbkdf2_Key :: "bytes \<Rightarrow> bytes \<Rightarrow> nat \<Rightarrow> nat \<Rightarrow> bytes"
  gcm_Seal :: "bytes \<Rightarrow> bytes \<Rightarrow> bytes \<Rightarrow> bytes \<Rightarrow> bytes"
  gcm_Open :: "bytes \<Rightarrow> bytes \<Rightarrow> bytes \<Rightarrow> bytes \<Rightarrow> bytes option"

text \<open>
  What the libraries document: PBKDF2 returns exactly \<open>keyLen\<close> bytes; GCM adds a 16-byte
  tag (\<open>Overhead\<close>), opens what it sealed under the same key, nonce and additional data,
  and rejects anything shorter than a tag. The two clauses about sealing are only required
  for AES-256 keys and 12-byte nonces, the only ones the package produces.
\<close>

definition gcmTagSize :: nat where "gcmTagSize = 16"

definition library_contract :: "primitives \<Rightarrow> bool" where
  "library_contract L \<longleftrightarrow>
     (\<forall>pw salt iter n. length (pbkdf2_Key L pw salt iter n) = n) \<and>
     (\<forall>k nonce p ad. length k = 32 \<and> length nonce = 12 \<longrightarrow>
        length (gcm_Seal L k nonce p ad) = length p + gcmTagSize) \<and>
     (\<forall>k nonce p ad. length k = 32 \<and> length nonce = 12 \<longrightarrow>
        gcm_Open L k nonce (gcm_Seal L k nonce p ad) ad = Some p) \<and>
     (\<forall>k nonce c ad. length c < gcmTagSize \<longrightarrow> gcm_Open L k nonce c ad = None)"

text \<open>
  \<open>rand.Reader\<close> is the bytes it will still deliver; \<open>io.ReadFull\<close> takes \<open>n\<close> of them or
  fails.
\<close>

type_synonym reader = bytes

definition ReadFull :: "reader \<Rightarrow> nat \<Rightarrow> crypto_error + (bytes \<times> reader)" where
  "ReadFull r n = (if length r < n then Inl RandError else Inr (take n r, drop n r))"

text \<open>
  \<open>aes.NewCipher\<close> accepts keys of 16, 24 or 32 bytes; the block it returns is represented
  by its key. \<open>cipher.NewGCM\<close> only rejects ciphers whose block is not 128 bits wide, which
  AES never is.
\<close>

definition NewCipher :: "bytes \<Rightarrow> crypto_error + bytes" where
  "NewCipher key =
     (if length key = 16 \<or> length key = 24 \<or> length key = 32 then Inr key
      else Inl (KeySizeError (length key)))"

definition NewGCM :: "bytes \<Rightarrow> crypto_error + bytes" where
  "NewGCM block = Inr block"

text \<open>\<open>gcm.Seal(dst, nonce, plaintext, ad)\<close> appends to \<open>dst\<close>; so does \<open>gcm.Open\<close>.\<close>

definition Seal :: "primitives \<Rightarrow> bytes \<Rightarrow> bytes \<Rightarrow> bytes \<Rightarrow> bytes \<Rightarrow> bytes \<Rightarrow> bytes" where
  "Seal L gcm dst nonce plaintext ad = dst @ gcm_Seal L gcm nonce plaintext ad"

definition Open :: "primitives \<Rightarrow> bytes \<Rightarrow> bytes \<Rightarrow> bytes \<Rightarrow> bytes \<Rightarrow> bytes \<Rightarrow> bytes option" where
  "Open L gcm dst nonce ciphertext ad =
     (case gcm_Open L gcm nonce ciphertext ad of
        None \<Rightarrow> None
      | Some p \<Rightarrow> Some (dst @ p))"

subsection \<open>The package's functions\<close>

definition DeriveKey :: "primitives \<Rightarrow> string \<Rightarrow> bytes \<Rightarrow> bytes" where
  "DeriveKey L masterPassword salt =
     pbkdf2_Key L (bytes_of masterPassword) salt PBKDF2Iterations KeySize"

definition GenerateSalt :: "reader \<Rightarrow> crypto_error + (bytes \<times> reader)" where
  "GenerateSalt r = ReadFull r SaltSize"

definition Encrypt :: "primitives \<Rightarrow> reader \<Rightarrow> bytes \<Rightarrow> bytes \<Rightarrow> crypto_error + (bytes \<times> reader)" where
  "Encrypt L r plaintext key =
     (case NewCipher key of
        Inl err \<Rightarrow> Inl err
      | Inr block \<Rightarrow>
     (case NewGCM block of
        Inl err \<Rightarrow> Inl err
      | Inr gcm \<Rightarrow>
     (case ReadFull r NonceSize of
        Inl err \<Rightarrow> Inl err
      | Inr (nonce, r') \<Rightarrow> Inr (Seal L gcm nonce nonce plaintext [], r'))))"

definition Decrypt :: "primitives \<Rightarrow> bytes \<Rightarrow> bytes \<Rightarrow> crypto_error + bytes" where
  "Decrypt L ciphertext key =
     (case NewCipher key of
        Inl err \<Rightarrow> Inl err
      | Inr block \<Rightarrow>
     (case NewGCM block of
        Inl err \<Rightarrow> Inl err
      | Inr gcm \<Rightarrow>
        if length ciphertext < NonceSize then Inl ErrInvalidCiphertext
        else
          (let nonce = take NonceSize ciphertext;
               ciphertextData = drop NonceSize ciphertext
           in case Open L gcm [] nonce ciphertextData [] of
                None \<Rightarrow> Inl ErrDecryptionFailed
              | Some plaintext \<Rightarrow> Inr plaintext)))"

definition EncryptWithPassword ::
    "primitives \<Rightarrow> reader \<Rightarrow> bytes \<Rightarrow> string \<Rightarrow> crypto_error + (bytes \<times> reader)" where
  "EncryptWithPassword L r plaintext password =
     (case GenerateSalt r of
        Inl err \<Rightarrow> Inl err
      | Inr (salt, r1) \<Rightarrow>
          (let key = DeriveKey L password salt
           in case Encrypt L r1 plaintext key of
                Inl err \<Rightarrow> Inl err
              | Inr (ciphertext, r2) \<Rightarrow> Inr (salt @ ciphertext, r2)))"

definition DecryptWithPassword :: "primitives \<Rightarrow> bytes \<Rightarrow> string \<Rightarrow> crypto_error + bytes" where
  "DecryptWithPassword L ciphertext password =
     (if length ciphertext < SaltSize + NonceSize then Inl ErrInvalidCiphertext
      else
        (let salt = take SaltSize ciphertext;
             encryptedData = drop SaltSize ciphertext;
             key = DeriveKey L password salt
         in Decrypt L encryptedData key))"

subsection \<open>An instance of the library contract\<close>

text \<open>
  A small keyed transformation with a 16-byte tag that depends on key and nonce. It is not
  AES-GCM; it shows that the contract is satisfiable and lets the functions above be run
  on concrete inputs.
\<close>

definition ref_tag :: "bytes \<Rightarrow> bytes \<Rightarrow> bytes" where
  "ref_tag k nonce = take 16 (nonce @ k @ replicate 16 0)"

definition ref_Seal :: "bytes \<Rightarrow> bytes \<Rightarrow> bytes \<Rightarrow> bytes \<Rightarrow> bytes" where
  "ref_Seal k nonce p ad = map (\<lambda>b. b + 1) p @ ref_tag k nonce"

definition ref_Open :: "bytes \<Rightarrow> bytes \<Rightarrow> bytes \<Rightarrow> bytes \<Rightarrow> bytes option" where
  "ref_Open k nonce c ad =
     (if length c < 16 then None
      else if drop (length c - 16) c = ref_tag k nonce
           then Some (map (\<lambda>b. b - 1) (take (length c - 16) c))
           else None)"

definition ref_Key :: "bytes \<Rightarrow> bytes \<Rightarrow> nat \<Rightarrow> nat \<Rightarrow> bytes" where
  "ref_Key pw salt iter n = take n (pw @ salt @ replicate n 0)"

definition ref_primitives :: primitives where
  "ref_primitives = \<lparr>pbkdf2_Key = ref_Key, gcm_Seal = ref_Seal, gcm_Open = ref_Open\<rparr>"

section \<open>Item repository (internal/models, internal/storage, migrations)\<close>

subsection \<open>Time\<close>

text \<open>
  A \<open>time.Time\<close> is the number of nanoseconds since the Unix epoch. \<open>time.Unix(sec, nsec)\<close>
  builds one, \<open>t.Unix()\<close> is the number of whole seconds. Stored timestamps are compared
  as the instants that were written.
\<close>

type_synonym time = int

definition time_Unix :: "int \<Rightarrow> int \<Rightarrow> time" where
  "time_Unix sec nsec = sec * 1000000000 + nsec"

definition Unix :: "time \<Rightarrow> int" where
  "Unix t = t div 1000000000"

subsection \<open>Models\<close>

text \<open>
  \<open>models.DataItem\<close>. \<open>DataType\<close> is a Go string type. \<open>Version\<close> is an \<open>int64\<close>, a
  64-bit word read as a signed number by \<open>sint\<close>; Go's \<open>+\<close> on it wraps.
\<close>

type_synonym int64 = "64 word"

record DataItem =
  ID :: string
  UserID :: string
  Type :: string
  Name :: string
  EncryptedData :: bytes
  Metadata :: "(string, string) mapping"
  CreatedAt :: time
  UpdatedAt :: time
  Version :: int64
  Deleted :: bool

definition MaxInt64 :: int64 where
  "MaxInt64 = 9223372036854775807"

subsection \<open>The tables\<close>

text \<open>
  The schema of \<open>001_init_schema.up.sql\<close> (the same as \<open>InitSchema\<close>): table \<open>users\<close> with
  primary key \<open>id\<close>, and table \<open>data_items\<close> with primary key \<open>id\<close>, a foreign key
  \<open>user_id\<close> into \<open>users\<close>, and \<open>UNIQUE(user_id, name)\<close>. The \<open>metadata\<close> column is a
  nullable JSONB value, held here as its text; \<open>version\<close> is a BIGINT, the same 64-bit
  signed range as \<open>int64\<close>.
\<close>

record user_row =
  u_id :: string
  username :: string
  password_hash :: string
  u_created_at :: time
  u_updated_at :: time

record item_row =
  id_col :: string
  user_id :: string
  type_col :: string
  name :: string
  encrypted_data :: bytes
  metadata :: "string option"
  created_at :: time
  updated_at :: time
  version :: int64
  deleted :: bool

record db =
  users :: "user_row list"
  data_items :: "item_row list"

text \<open>
  Errors of the database, by kind and constraint name, and the errors of the storage
  package: its sentinels, a database error passed through unchanged, or the error of
  \<open>database/sql\<close> for an argument it cannot convert, also passed through.
\<close>

datatype pq_error =
    UniqueViolation string
  | ForeignKeyViolation string
  | NumericValueOutOfRange

datatype storage_error =
    ErrUserNotFound
  | ErrUserAlreadyExists
  | ErrItemNotFound
  | ErrVersionConflict
  | PqError pq_error
  | ErrConvertingArgument

subsection \<open>The SQL statements\<close>

text \<open>
  \<open>INSERT INTO data_items\<close>: the row is added unless it violates the primary key, the
  \<open>UNIQUE(user_id, name)\<close> constraint or the foreign key. None of the three looks at the
  \<open>deleted\<close> column. The widths of the \<open>VARCHAR\<close> columns are left out: ids, types and
  names are taken to fit.
\<close>

definition insert_data_items :: "db \<Rightarrow> item_row \<Rightarrow> pq_error + db" where
  "insert_data_items d r =
     (if list_ex (\<lambda>x. id_col x = id_col r) (data_items d)
        then Inl (UniqueViolation ''data_items_pkey'')
      else if list_ex (\<lambda>x. user_id x = user_id r \<and> name x = name r) (data_items d)
        then Inl (UniqueViolation ''data_items_user_id_name_key'')
      else if \<not> list_ex (\<lambda>u. u_id u = user_id r) (users d)
        then Inl (ForeignKeyViolation ''data_items_user_id_fkey'')
      else Inr (d\<lparr>data_items := data_items d @ [r]\<rparr>))"

text \<open>
  The \<open>UPDATE\<close> of \<open>UpdateItem\<close>, with its six arguments in order: one statement that
  rewrites every row satisfying the \<open>WHERE\<close> clause and reports how many there were.
  \<open>version + 1\<close> on a BIGINT does not wrap: at the largest value the statement fails
  and nothing is written.
\<close>

definition update_where_version ::
    "db \<Rightarrow> bytes \<Rightarrow> string option \<Rightarrow> time \<Rightarrow> string \<Rightarrow> string \<Rightarrow> int64 \<Rightarrow> pq_error + (db \<times> nat)" where
  "update_where_version d a1 a2 a3 a4 a5 a6 =
     (let hit = (\<lambda>r. id_col r = a4 \<and> user_id r = a5 \<and> version r = a6 \<and> deleted r = False)
      in if list_ex (\<lambda>r. hit r \<and> version r = MaxInt64) (data_items d)
           then Inl NumericValueOutOfRange
         else Inr (d\<lparr>data_items :=
                      map (\<lambda>r. if hit r
                                then r\<lparr>encrypted_data := a1, metadata := a2, updated_at := a3,
                                       version := version r + 1\<rparr>
                                else r) (data_items d)\<rparr>,
                   length (filter hit (data_items d))))"


text \<open>
  \<open>ORDER BY\<close>: ascending is a sort on the column, descending its reverse. Among rows with
  equal keys the database may pick any order; the model picks one.
\<close>

definition order_by_asc :: "(item_row \<Rightarrow> int) \<Rightarrow> item_row list \<Rightarrow> item_row list" where
  "order_by_asc col rows = sort_key col rows"

definition order_by_desc :: "(item_row \<Rightarrow> int) \<Rightarrow> item_row list \<Rightarrow> item_row list" where
  "order_by_desc col rows = rev (sort_key col rows)"

subsection \<open>Helpers of the storage package\<close>

text \<open>
  \<open>metadataToJSON\<close> returns \<open>nil\<close> for an empty map and the map itself otherwise. What
  \<open>database/sql\<close> and the driver make of a map argument is outside the repository: it is
  the parameter \<open>jsonb\<close> of the writing operations, which gives the text stored for a
  map, or \<open>None\<close> when the argument cannot be converted and \<open>Exec\<close> fails before it
  reaches the database. Nothing is assumed about it. A \<open>nil\<close> argument is always sent,
  as NULL.
\<close>

definition metadataToJSON :: "(string, string) mapping \<Rightarrow> (string, string) mapping option" where
  "metadataToJSON m = (if Mapping.is_empty m then None else Some m)"

definition driver_arg ::
    "((string, string) mapping \<Rightarrow> string option) \<Rightarrow> (string, string) mapping option
       \<Rightarrow> string option option" where
  "driver_arg jsonb v =
     (case v of
        None \<Rightarrow> Some None
      | Some m \<Rightarrow> (case jsonb m of None \<Rightarrow> None | Some s \<Rightarrow> Some (Some s)))"

text \<open>
  The program's own instance of the parameter. The default converter of \<open>database/sql\<close>
  has no case for a map and the driver adds none, so a \<open>map[string]string\<close> is never
  sent: \<open>Exec\<close> returns \<open>unsupported type map[string]string, a map\<close>.
\<close>

definition sql_jsonb :: "(string, string) mapping \<Rightarrow> string option" where
  "sql_jsonb m = None"

definition jsonToMetadata :: "string \<Rightarrow> (string, string) mapping" where
  "jsonToMetadata jsonStr = (if jsonStr = [] then Mapping.empty else Mapping.empty)"

text \<open>
  \<open>Scan\<close> of one result row into a fresh \<open>DataItem\<close> and a \<open>sql.NullString\<close> for the
  metadata column, whose \<open>String\<close> is empty for NULL.
\<close>

definition NullString_String :: "string option \<Rightarrow> string" where
  "NullString_String v = (case v of None \<Rightarrow> [] | Some s \<Rightarrow> s)"

definition Scan :: "item_row \<Rightarrow> DataItem \<times> string option" where
  "Scan r =
     (\<lparr>ID = id_col r, UserID = user_id r, Type = type_col r, Name = name r,
       EncryptedData = encrypted_data r, Metadata = Mapping.empty,
       CreatedAt = created_at r, UpdatedAt = updated_at r, Version = version r,
       Deleted = deleted r\<rparr>,
      metadata r)"

definition scan_item :: "item_row \<Rightarrow> DataItem" where
  "scan_item r =
     (case Scan r of
        (item, metadataJSON) \<Rightarrow> item\<lparr>Metadata := jsonToMetadata (NullString_String metadataJSON)\<rparr>)"

subsection \<open>The storage operations\<close>

text \<open>
  Each operation takes the database and returns what the Go function returns; a writing
  operation also returns the new database and the item it was given, as it has modified
  it. \<open>uuid\<close> is the value of \<open>uuid.New().String()\<close>, \<open>now\<close> the value of
  \<open>time.Now()\<close>. The store is taken to be reachable: an operation fails only for the
  reasons written here.
\<close>

definition CreateItem ::
    "((string, string) mapping \<Rightarrow> string option) \<Rightarrow> db \<Rightarrow> string \<Rightarrow> time \<Rightarrow> time
       \<Rightarrow> DataItem \<Rightarrow> storage_error option \<times> db \<times> DataItem" where
  "CreateItem jsonb d uuid now1 now2 item0 =
     (let item1 = (if ID item0 = [] then item0\<lparr>ID := uuid\<rparr> else item0);
          item2 = item1\<lparr>CreatedAt := now1\<rparr>;
          item3 = item2\<lparr>UpdatedAt := now2\<rparr>;
          item = item3\<lparr>Version := 1\<rparr>
      in case driver_arg jsonb (metadataToJSON (Metadata item)) of
           None \<Rightarrow> (Some ErrConvertingArgument, d, item)
         | Some md \<Rightarrow>
             (case insert_data_items d
                     \<lparr>id_col = ID item, user_id = UserID item, type_col = Type item,
                      name = Name item, encrypted_data = EncryptedData item,
                      metadata = md,
                      created_at = CreatedAt item, updated_at = UpdatedAt item,
                      version = Version item, deleted = Deleted item\<rparr> of
                Inl err \<Rightarrow> (Some (PqError err), d, item)
              | Inr d' \<Rightarrow> (None, d', item)))"

definition GetItem :: "db \<Rightarrow> string \<Rightarrow> string \<Rightarrow> storage_error + DataItem" where
  "GetItem d userID itemID =
     (case find (\<lambda>r. id_col r = itemID \<and> user_id r = userID \<and> deleted r = False)
             (data_items d) of
        None \<Rightarrow> Inl ErrItemNotFound
      | Some r \<Rightarrow> Inr (scan_item r))"

definition GetItemByName :: "db \<Rightarrow> string \<Rightarrow> string \<Rightarrow> storage_error + DataItem" where
  "GetItemByName d userID nm =
     (case find (\<lambda>r. user_id r = userID \<and> name r = nm \<and> deleted r = False)
             (data_items d) of
        None \<Rightarrow> Inl ErrItemNotFound
      | Some r \<Rightarrow> Inr (scan_item r))"

definition ListItems :: "db \<Rightarrow> string \<Rightarrow> string \<Rightarrow> storage_error + DataItem list" where
  "ListItems d userID dataType =
     (let rows =
            (if dataType \<noteq> []
             then order_by_desc created_at
                    (filter (\<lambda>r. user_id r = userID \<and> type_col r = dataType \<and> deleted r = False)
                       (data_items d))
             else order_by_desc created_at
                    (filter (\<lambda>r. user_id r = userID \<and> deleted r = False) (data_items d)))
      in Inr (map scan_item rows))"

definition UpdateItem ::
    "((string, string) mapping \<Rightarrow> string option) \<Rightarrow> db \<Rightarrow> time \<Rightarrow> DataItem
       \<Rightarrow> storage_error option \<times> db \<times> DataItem" where
  "UpdateItem jsonb d now item0 =
     (let item = item0\<lparr>UpdatedAt := now\<rparr>
      in case driver_arg jsonb (metadataToJSON (Metadata item)) of
           None \<Rightarrow> (Some ErrConvertingArgument, d, item)
         | Some md \<Rightarrow>
             (case update_where_version d
                     (EncryptedData item) md
                     (UpdatedAt item) (ID item) (UserID item) (Version item) of
                Inl err \<Rightarrow> (Some (PqError err), d, item)
              | Inr (d', rowsAffected) \<Rightarrow>
                  if rowsAffected = 0 then (Some ErrVersionConflict, d', item)
                  else (None, d', item)))"


definition GetItemsModifiedAfter :: "db \<Rightarrow> string \<Rightarrow> time \<Rightarrow> storage_error + DataItem list" where
  "GetItemsModifiedAfter d userID timestamp =
     Inr (map scan_item
            (order_by_asc updated_at
               (filter (\<lambda>r. user_id r = userID \<and> timestamp < updated_at r) (data_items d))))"

section \<open>Request handlers (server)\<close>

text \<open>
  \<open>auth.ValidateToken\<close> rests on the JWT library; it is the parameter \<open>V\<close> of the
  handlers, from token and secret to claims or an error.
\<close>

datatype auth_error = ErrInvalidToken | ErrExpiredToken

record Claims =
  claims_UserID :: string
  claims_Username :: string

type_synonym validator = "string \<Rightarrow> string \<Rightarrow> auth_error + Claims"

text \<open>The errors a handler returns: \<open>fmt.Errorf\<close> with a prefix around the cause.\<close>

datatype server_error =
    InvalidToken auth_error
  | FailedToGetItem storage_error
  | FailedToUpdateItem storage_error
  | FailedToGetModifiedItems storage_error

subsection \<open>Protocol messages\<close>

datatype pb_DataType =
    DATA_TYPE_UNSPECIFIED
  | DATA_TYPE_CREDENTIAL
  | DATA_TYPE_TEXT
  | DATA_TYPE_BINARY
  | DATA_TYPE_CARD

record pb_DataItem =
  pb_Id :: string
  pb_UserId :: string
  pb_Type :: pb_DataType
  pb_Name :: string
  pb_EncryptedData :: bytes
  pb_Metadata :: "(string, string) mapping"
  pb_CreatedAt :: int
  pb_UpdatedAt :: int
  pb_Version :: int64
  pb_Deleted :: bool

datatype pb_SyncConflict = SyncConflict string

text \<open>A map field of a request may be \<open>nil\<close>: \<open>None\<close>.\<close>

record UpdateItemRequest =
  upd_Token :: string
  upd_ItemId :: string
  upd_EncryptedData :: bytes
  upd_Metadata :: "(string, string) mapping option"

record UpdateItemResponse =
  upd_Message :: string
  upd_NewVersion :: int64

record SyncRequest =
  sync_Token :: string
  LastSyncTimestamp :: int

record SyncResponse =
  Items :: "pb_DataItem list"
  SyncTimestamp :: int
  Conflicts :: "pb_SyncConflict list"

definition modelTypeToProtoType :: "string \<Rightarrow> pb_DataType" where
  "modelTypeToProtoType mt =
     (if mt = ''credential'' then DATA_TYPE_CREDENTIAL
      else if mt = ''text'' then DATA_TYPE_TEXT
      else if mt = ''binary'' then DATA_TYPE_BINARY
      else if mt = ''card'' then DATA_TYPE_CARD
      else DATA_TYPE_UNSPECIFIED)"

definition modelItemToProtoItem :: "DataItem \<Rightarrow> pb_DataItem" where
  "modelItemToProtoItem item =
     \<lparr>pb_Id = ID item, pb_UserId = UserID item, pb_Type = modelTypeToProtoType (Type item),
      pb_Name = Name item, pb_EncryptedData = EncryptedData item, pb_Metadata = Metadata item,
      pb_CreatedAt = Unix (CreatedAt item), pb_UpdatedAt = Unix (UpdatedAt item),
      pb_Version = Version item, pb_Deleted = Deleted item\<rparr>"

subsection \<open>Handlers\<close>

text \<open>
  \<open>Server.UpdateItem\<close>: read the item, overwrite its fields, update it in storage. The
  handler returns its response or error, and the database it leaves.
\<close>

definition Server_UpdateItem ::
    "validator \<Rightarrow> string \<Rightarrow> ((string, string) mapping \<Rightarrow> string option) \<Rightarrow> db \<Rightarrow> time
       \<Rightarrow> UpdateItemRequest \<Rightarrow> (server_error + UpdateItemResponse) \<times> db" where
  "Server_UpdateItem V jwtSecret jsonb d now req =
     (case V (upd_Token req) jwtSecret of
        Inl err \<Rightarrow> (Inl (InvalidToken err), d)
      | Inr claims \<Rightarrow>
     (case GetItem d (claims_UserID claims) (upd_ItemId req) of
        Inl err \<Rightarrow> (Inl (FailedToGetItem err), d)
      | Inr item0 \<Rightarrow>
          (let item1 = item0\<lparr>EncryptedData := upd_EncryptedData req\<rparr>;
               item2 = (case upd_Metadata req of
                          None \<Rightarrow> item1
                        | Some m \<Rightarrow> item1\<lparr>Metadata := m\<rparr>)
           in case UpdateItem jsonb d now item2 of
                (Some err, d', item) \<Rightarrow>
                  if err = ErrVersionConflict
                  then (Inr \<lparr>upd_Message = ''version conflict - item was modified by another client'',
                             upd_NewVersion = 0\<rparr>, d')
                  else (Inl (FailedToUpdateItem err), d')
              | (None, d', item) \<Rightarrow>
                  (Inr \<lparr>upd_Message = ''item updated successfully'',
                        upd_NewVersion = Version item + 1\<rparr>, d'))))"

text \<open>
  \<open>Server.Sync\<close> meets the world twice: once when the storage query runs, and again when
  the response is built and \<open>time.Now()\<close> is read. Other requests may be served between
  the two and time passes, so the handler takes both worlds, \<open>w_query\<close> and \<open>w_reply\<close>;
  a handler that runs undisturbed has the same store in both.
\<close>

record world =
  store :: db
  wall :: time

definition Server_Sync ::
    "validator \<Rightarrow> string \<Rightarrow> world \<Rightarrow> world \<Rightarrow> SyncRequest \<Rightarrow> server_error + SyncResponse" where
  "Server_Sync V jwtSecret w_query w_reply req =
     (case V (sync_Token req) jwtSecret of
        Inl err \<Rightarrow> Inl (InvalidToken err)
      | Inr claims \<Rightarrow>
          (let lastSync = time_Unix (LastSyncTimestamp req) 0
           in case GetItemsModifiedAfter (store w_query) (claims_UserID claims) lastSync of
                Inl err \<Rightarrow> Inl (FailedToGetModifiedItems err)
              | Inr items \<Rightarrow>
                  Inr \<lparr>Items = map modelItemToProtoItem items,
                       SyncTimestamp = Unix (wall w_reply),
                       Conflicts = []\<rparr>))"

section \<open>A small store to run the operations on\<close>

text \<open>
  Stand-ins for the two parameters of the repository and the handlers, two users, and a
  store with a live item of the first user, a tombstoned item of the first user, and a
  live item of the second. Times are in nanoseconds: 1, 2.5 and 3 seconds.
\<close>

definition ref_jsonb :: "(string, string) mapping \<Rightarrow> string option" where
  "ref_jsonb m = Some ''{...}''"

definition ref_validator :: validator where
  "ref_validator token secret =
     (if token = [] then Inl ErrInvalidToken
      else Inr \<lparr>claims_UserID = token, claims_Username = token\<rparr>)"

definition alice :: user_row where
  "alice = \<lparr>u_id = ''u1'', username = ''alice'', password_hash = ''h1'',
            u_created_at = 0, u_updated_at = 0\<rparr>"

definition bob :: user_row where
  "bob = \<lparr>u_id = ''u2'', username = ''bob'', password_hash = ''h2'',
          u_created_at = 0, u_updated_at = 0\<rparr>"

definition github_row :: item_row where
  "github_row =
     \<lparr>id_col = ''i1'', user_id = ''u1'', type_col = ''credential'', name = ''GitHub'',
      encrypted_data = [1, 2, 3], metadata = Some ''{...}'',
      created_at = 1000000000, updated_at = 1000000000, version = 1, deleted = False\<rparr>"

definition notes_row :: item_row where
  "notes_row =
     \<lparr>id_col = ''i2'', user_id = ''u1'', type_col = ''text'', name = ''Notes'',
      encrypted_data = [4, 5], metadata = None,
      created_at = 2000000000, updated_at = 3000000000, version = 1, deleted = True\<rparr>"

definition card_row :: item_row where
  "card_row =
     \<lparr>id_col = ''i3'', user_id = ''u2'', type_col = ''card'', name = ''Visa'',
      encrypted_data = [6], metadata = None,
      created_at = 2500000000, updated_at = 2500000000, version = 2, deleted = False\<rparr>"

definition ref_db :: db where
  "ref_db = \<lparr>users = [alice, bob], data_items = [github_row, notes_row, card_row]\<rparr>"

text \<open>
  The item \<open>Server.AddItem\<close> hands to \<open>CreateItem\<close>: owner, type, name, data and tags
  from the request, every other field at its zero value.
\<close>

definition new_item :: "string \<Rightarrow> string \<Rightarrow> (string, string) mapping \<Rightarrow> DataItem" where
  "new_item uid nm tags =
     \<lparr>ID = [], UserID = uid, Type = ''credential'', Name = nm, EncryptedData = [7, 8, 9],
      Metadata = tags, CreatedAt = 0, UpdatedAt = 0, Version = 0, Deleted = False\<rparr>"

text \<open>An update of the first user's live item that presents version \<open>v\<close>.\<close>

definition github_update :: "int64 \<Rightarrow> DataItem" where
  "github_update v =
     \<lparr>ID = ''i1'', UserID = ''u1'', Type = ''credential'', Name = ''GitHub'',
      EncryptedData = [9, 9], Metadata = Mapping.empty, CreatedAt = 1000000000,
      UpdatedAt = 1000000000, Version = v, Deleted = False\<rparr>"

text \<open>
  The same update carrying one tag, and a store whose only row is at the largest BIGINT
  version.
\<close>

definition site_tags :: "(string, string) mapping" where
  "site_tags = Mapping.update ''site'' ''github.com'' Mapping.empty"

definition github_tagged_update :: DataItem where
  "github_tagged_update = (github_update 1)\<lparr>Metadata := site_tags\<rparr>"

definition max_row :: item_row where
  "max_row = github_row\<lparr>version := MaxInt64\<rparr>"

definition max_db :: db where
  "max_db = \<lparr>users = [alice, bob], data_items = [max_row]\<rparr>"




text \<open>
  A history of one synchronisation. The first user's query runs at 5.8 s on \<open>ref_db\<close>;
  at 5.9 s another device of the same user creates an item; the handler builds its
  response at 6.1 s. A later synchronisation runs at 9 s.
\<close>

definition bank_row :: item_row where
  "bank_row =
     \<lparr>id_col = ''i4'', user_id = ''u1'', type_col = ''credential'', name = ''Bank'',
      encrypted_data = [7, 8, 9], metadata = None,
      created_at = 5900000000, updated_at = 5900000000, version = 1, deleted = False\<rparr>"

definition db_concurrent :: db where
  "db_concurrent =
     fst (snd (CreateItem ref_jsonb ref_db ''i4'' 5900000000 5900000000
                 (new_item ''u1'' ''Bank'' Mapping.empty)))"

definition w_query :: world where
  "w_query = \<lparr>store = ref_db, wall = 5800000000\<rparr>"

definition w_reply :: world where
  "w_reply = \<lparr>store = db_concurrent, wall = 6100000000\<rparr>"

definition w_later :: world where
  "w_later = \<lparr>store = db_concurrent, wall = 9000000000\<rparr>"

section \<open>Properties\<close>

lemma ref_tag_length: "length (ref_tag k nonce) = 16"
  by (simp add: ref_tag_def)

lemma ref_Key_length: "length (ref_Key pw salt iter n) = n"
  by (simp add: ref_Key_def min_def)

lemma ref_Open_Seal: "ref_Open k nonce (ref_Seal k nonce p ad) ad = Some p"
proof -
  have "map ((\<lambda>b. b - 1) \<circ> (\<lambda>b. b + 1)) p = p"
    by (induction p) simp_all
  then show ?thesis
    by (simp add: ref_Open_def ref_Seal_def ref_tag_length)
qed

lemma ref_Seal_length: "length (ref_Seal k nonce p ad) = length p + 16"
  by (simp add: ref_Seal_def ref_tag_length)

lemma ref_Open_short: "length c < 16 \<Longrightarrow> ref_Open k nonce c ad = None"
  by (simp add: ref_Open_def)

lemma ref_primitives_contract: "library_contract ref_primitives"
  by (simp add: library_contract_def ref_primitives_def ref_Key_length ref_Open_Seal
      ref_Seal_length ref_Open_short gcmTagSize_def)

subsection \<open>Envelope framing\<close>

lemma DeriveKey_length:
  "library_contract L \<Longrightarrow> length (DeriveKey L pw salt) = 32"
  by (simp add: library_contract_def DeriveKey_def KeySize_def)

lemma EncryptWithPassword_Inr:
  assumes "library_contract L"
  shows "EncryptWithPassword L r p pw = Inr (blob, r') \<longleftrightarrow>
           44 \<le> length r \<and> r' = drop 44 r \<and>
           blob = take 32 r @ take 12 (drop 32 r)
                  @ gcm_Seal L (DeriveKey L pw (take 32 r)) (take 12 (drop 32 r)) p []"
proof -
  have k: "length (DeriveKey L pw (take 32 r)) = 32"
    using assms by (rule DeriveKey_length)
  show ?thesis
    using k
    by (auto simp: EncryptWithPassword_def GenerateSalt_def ReadFull_def Encrypt_def
        NewCipher_def NewGCM_def Seal_def SaltSize_def NonceSize_def Let_def add.commute)
qed

lemma Decrypt_sealed:
  assumes "library_contract L" "length key = 32" "length nonce = 12"
  shows "Decrypt L (nonce @ gcm_Seal L key nonce p []) key = Inr p"
proof -
  from assms have "gcm_Open L key nonce (gcm_Seal L key nonce p []) [] = Some p"
    by (simp add: library_contract_def)
  with assms(2,3) show ?thesis
    by (simp add: Decrypt_def NewCipher_def NewGCM_def NonceSize_def Open_def)
qed

text \<open>
  Claim C1. Whenever \<open>EncryptWithPassword\<close> returns a blob for a plaintext \<open>P\<close> and a
  secret \<open>S\<close>, \<open>DecryptWithPassword\<close> with the same secret returns exactly \<open>P\<close>; and
  it does return a blob as soon as the random source delivers the 32 + 12 bytes asked of
  it.
\<close>

theorem EncryptWithPassword_roundtrip:
  assumes "library_contract L"
  shows "(\<forall>blob r'. EncryptWithPassword L r P S = Inr (blob, r')
            \<longrightarrow> DecryptWithPassword L blob S = Inr P) \<and>
         (SaltSize + NonceSize \<le> length r
            \<longrightarrow> (\<exists>blob r'. EncryptWithPassword L r P S = Inr (blob, r')))"
proof (intro conjI allI impI)
  fix blob r'
  assume "EncryptWithPassword L r P S = Inr (blob, r')"
  with EncryptWithPassword_Inr [OF assms]
  have len: "44 \<le> length r"
    and blob: "blob = take 32 r @ take 12 (drop 32 r)
                 @ gcm_Seal L (DeriveKey L S (take 32 r)) (take 12 (drop 32 r)) P []"
    by simp_all
  let ?salt = "take 32 r" and ?nonce = "take 12 (drop 32 r)"
  have s: "length ?salt = 32" and n: "length ?nonce = 12"
    using len by simp_all
  have k: "length (DeriveKey L S ?salt) = 32"
    using assms by (rule DeriveKey_length)
  have "DecryptWithPassword L blob S =
          Decrypt L (?nonce @ gcm_Seal L (DeriveKey L S ?salt) ?nonce P []) (DeriveKey L S ?salt)"
    using s n by (simp add: DecryptWithPassword_def blob SaltSize_def NonceSize_def)
  also have "\<dots> = Inr P"
    using assms k n by (rule Decrypt_sealed)
  finally show "DecryptWithPassword L blob S = Inr P" .
next
  assume "SaltSize + NonceSize \<le> length r"
  then have "44 \<le> length r"
    by (simp add: SaltSize_def NonceSize_def)
  with EncryptWithPassword_Inr [OF assms, of r P S]
  show "\<exists>blob r'. EncryptWithPassword L r P S = Inr (blob, r')"
    by blast
qed


theorem EncryptWithPassword_roundtrip_witness:
  "library_contract ref_primitives \<and>
   SaltSize + NonceSize \<le> length (replicate 44 (7::byte)) \<and>
   (\<exists>blob r'. EncryptWithPassword ref_primitives (replicate 44 7) [1, 2, 3] ''pw'' = Inr (blob, r')
      \<and> DecryptWithPassword ref_primitives blob ''pw'' = Inr [1, 2, 3])"
  using EncryptWithPassword_roundtrip [OF ref_primitives_contract, of "replicate 44 7" "[1, 2, 3]" "''pw''"]
    ref_primitives_contract
  by (auto simp: SaltSize_def NonceSize_def)

text \<open>
  Claim C8. A blob returned by \<open>EncryptWithPassword\<close> is the 32-byte salt, then the
  12-byte nonce, then the output of the AEAD for the plaintext under the key derived from
  secret and salt, which is 16 bytes longer than the plaintext; the blob is
  \<open>length P + 32 + 12 + 16\<close> bytes long.
\<close>

theorem EncryptWithPassword_layout:
  assumes "library_contract L"
    and "EncryptWithPassword L r P S = Inr (blob, r')"
  shows "length (take SaltSize blob) = 32 \<and> take SaltSize blob = take 32 r \<and>
         length (take NonceSize (drop SaltSize blob)) = 12 \<and>
         take NonceSize (drop SaltSize blob) = take 12 (drop 32 r) \<and>
         drop (SaltSize + NonceSize) blob =
           gcm_Seal L (DeriveKey L S (take SaltSize blob)) (take NonceSize (drop SaltSize blob)) P [] \<and>
         length (drop (SaltSize + NonceSize) blob) = length P + 16 \<and>
         length blob = length P + 32 + 12 + 16"
proof -
  from assms EncryptWithPassword_Inr [OF assms(1), of r P S blob r']
  have len: "44 \<le> length r"
    and blob: "blob = take 32 r @ take 12 (drop 32 r)
                 @ gcm_Seal L (DeriveKey L S (take 32 r)) (take 12 (drop 32 r)) P []"
    by simp_all
  let ?salt = "take 32 r" and ?nonce = "take 12 (drop 32 r)"
  have s: "length ?salt = 32" and n: "length ?nonce = 12"
    using len by simp_all
  have k: "length (DeriveKey L S ?salt) = 32"
    using assms(1) by (rule DeriveKey_length)
  have t: "length (gcm_Seal L (DeriveKey L S ?salt) ?nonce P []) = length P + 16"
    using assms(1) k n by (simp add: library_contract_def gcmTagSize_def)
  show ?thesis
    using s n t by (simp add: blob SaltSize_def NonceSize_def)
qed

theorem EncryptWithPassword_layout_witness:
  "library_contract ref_primitives \<and>
   (\<exists>blob r'. EncryptWithPassword ref_primitives (replicate 44 7) [1, 2, 3] ''pw'' = Inr (blob, r') \<and>
      take 32 blob = replicate 32 7 \<and> take 12 (drop 32 blob) = replicate 12 7 \<and>
      length blob = 3 + 32 + 12 + 16)"
proof -
  from EncryptWithPassword_Inr [OF ref_primitives_contract, of "replicate 44 7" "[1, 2, 3]" "''pw''"]
  obtain blob r' where
    e: "EncryptWithPassword ref_primitives (replicate 44 7) [1, 2, 3] ''pw'' = Inr (blob, r')"
    by auto
  from EncryptWithPassword_layout [OF ref_primitives_contract e] e ref_primitives_contract
  show ?thesis
    by (auto simp: SaltSize_def NonceSize_def)
qed

subsection \<open>Decryption failures\<close>

lemma Decrypt_cases:
  assumes "length key = 16 \<or> length key = 24 \<or> length key = 32"
  shows "Decrypt L c key =
           (if length c < 12 then Inl ErrInvalidCiphertext
            else case gcm_Open L key (take 12 c) (drop 12 c) [] of
                   None \<Rightarrow> Inl ErrDecryptionFailed
                 | Some p \<Rightarrow> Inr p)"
  using assms
  by (auto simp: Decrypt_def NewCipher_def NewGCM_def NonceSize_def Open_def Let_def
      split: option.splits)

lemma DecryptWithPassword_cases:
  assumes "library_contract L"
  shows "DecryptWithPassword L blob S =
           (if length blob < 44 then Inl ErrInvalidCiphertext
            else case gcm_Open L (DeriveKey L S (take 32 blob)) (take 12 (drop 32 blob))
                        (drop 44 blob) [] of
                   None \<Rightarrow> Inl ErrDecryptionFailed
                 | Some p \<Rightarrow> Inr p)"
proof -
  have k: "length (DeriveKey L S (take 32 blob)) = 32"
    using assms by (rule DeriveKey_length)
  show ?thesis
  proof (cases "length blob < 44")
    case True
    then show ?thesis
      by (simp add: DecryptWithPassword_def SaltSize_def NonceSize_def)
  next
    case False
    then have "\<not> length (drop 32 blob) < 12"
      by simp
    with False show ?thesis
      by (simp add: DecryptWithPassword_def SaltSize_def NonceSize_def Let_def
          Decrypt_cases [OF disjI2 [OF disjI2 [OF k]]] add.commute del: length_drop)
  qed
qed

text \<open>
  Claim C9, as the code has it. \<open>Decrypt\<close> has two failures for a well-sized key:
  \<open>ErrInvalidCiphertext\<close> exactly when its input is shorter than the 12-byte nonce, and
  \<open>ErrDecryptionFailed\<close> exactly when the input is long enough and the AEAD rejects it.
  \<open>DecryptWithPassword\<close> fails with \<open>ErrInvalidCiphertext\<close> exactly when the blob is
  shorter than 32 + 12 bytes, with \<open>ErrDecryptionFailed\<close> exactly when the blob is long
  enough and the AEAD rejects it (always so below 32 + 12 + 16 bytes), and with no other
  error.
\<close>

theorem decrypt_error_kinds:
  assumes "library_contract L"
  shows "(length key = 16 \<or> length key = 24 \<or> length key = 32 \<longrightarrow>
            (Decrypt L c key = Inl ErrInvalidCiphertext \<longleftrightarrow> length c < NonceSize) \<and>
            (Decrypt L c key = Inl ErrDecryptionFailed \<longleftrightarrow>
               NonceSize \<le> length c \<and>
               gcm_Open L key (take NonceSize c) (drop NonceSize c) [] = None)) \<and>
         (DecryptWithPassword L blob S = Inl ErrInvalidCiphertext \<longleftrightarrow>
            length blob < SaltSize + NonceSize) \<and>
         (DecryptWithPassword L blob S = Inl ErrDecryptionFailed \<longleftrightarrow>
            SaltSize + NonceSize \<le> length blob \<and>
            gcm_Open L (DeriveKey L S (take SaltSize blob)) (take NonceSize (drop SaltSize blob))
              (drop (SaltSize + NonceSize) blob) [] = None) \<and>
         (\<forall>e. DecryptWithPassword L blob S = Inl e \<longrightarrow>
            e = ErrInvalidCiphertext \<or> e = ErrDecryptionFailed) \<and>
         (SaltSize + NonceSize \<le> length blob \<and> length blob < SaltSize + NonceSize + gcmTagSize \<longrightarrow>
            DecryptWithPassword L blob S = Inl ErrDecryptionFailed)"
proof -
  have short: "length blob < 60 \<Longrightarrow>
      gcm_Open L (DeriveKey L S (take 32 blob)) (take 12 (drop 32 blob)) (drop 44 blob) [] = None"
    using assms by (simp add: library_contract_def gcmTagSize_def)
  have a: "length key = 16 \<or> length key = 24 \<or> length key = 32 \<longrightarrow>
            (Decrypt L c key = Inl ErrInvalidCiphertext \<longleftrightarrow> length c < NonceSize) \<and>
            (Decrypt L c key = Inl ErrDecryptionFailed \<longleftrightarrow>
               NonceSize \<le> length c \<and>
               gcm_Open L key (take NonceSize c) (drop NonceSize c) [] = None)"
    by (auto simp: Decrypt_cases NonceSize_def split: option.splits)
  have b: "(DecryptWithPassword L blob S = Inl ErrInvalidCiphertext \<longleftrightarrow>
            length blob < SaltSize + NonceSize)"
    by (auto simp: DecryptWithPassword_cases [OF assms] SaltSize_def NonceSize_def
        split: option.splits)
  have c: "(DecryptWithPassword L blob S = Inl ErrDecryptionFailed \<longleftrightarrow>
            SaltSize + NonceSize \<le> length blob \<and>
            gcm_Open L (DeriveKey L S (take SaltSize blob)) (take NonceSize (drop SaltSize blob))
              (drop (SaltSize + NonceSize) blob) [] = None)"
    by (auto simp: DecryptWithPassword_cases [OF assms] SaltSize_def NonceSize_def
        split: option.splits)
  have d: "(\<forall>e. DecryptWithPassword L blob S = Inl e \<longrightarrow>
            e = ErrInvalidCiphertext \<or> e = ErrDecryptionFailed)"
    by (auto simp: DecryptWithPassword_cases [OF assms] split: option.splits if_splits)
  have e: "(SaltSize + NonceSize \<le> length blob \<and> length blob < SaltSize + NonceSize + gcmTagSize \<longrightarrow>
            DecryptWithPassword L blob S = Inl ErrDecryptionFailed)"
    using short
    by (auto simp: DecryptWithPassword_cases [OF assms] SaltSize_def NonceSize_def gcmTagSize_def)
  from a b c d e show ?thesis by blast
qed

theorem decrypt_error_kinds_witness:
  "library_contract ref_primitives \<and>
   length (replicate 32 (0::byte)) = 32 \<and>
   Decrypt ref_primitives [1, 2, 3] (replicate 32 0) = Inl ErrInvalidCiphertext \<and>
   DecryptWithPassword ref_primitives (replicate 43 0) ''pw'' = Inl ErrInvalidCiphertext \<and>
   SaltSize + NonceSize \<le> length (replicate 50 (0::byte)) \<and>
   length (replicate 50 (0::byte)) < SaltSize + NonceSize + gcmTagSize \<and>
   DecryptWithPassword ref_primitives (replicate 50 0) ''pw'' = Inl ErrDecryptionFailed"
  using decrypt_error_kinds [OF ref_primitives_contract, of "replicate 32 0" "[1, 2, 3]" "replicate 43 0" "''pw''"]
    decrypt_error_kinds [OF ref_primitives_contract, of "replicate 32 0" "[1, 2, 3]" "replicate 50 0" "''pw''"]
    ref_primitives_contract
  by (simp add: SaltSize_def NonceSize_def gcmTagSize_def)

text \<open>
  \<open>Decrypt\<close> does not have a single error: an input shorter than the nonce and an input
  the AEAD rejects fail differently.
\<close>

theorem decrypt_single_error_counterexample:
  "Decrypt ref_primitives [] (replicate 32 0) = Inl ErrInvalidCiphertext \<and>
   Decrypt ref_primitives (replicate 12 0) (replicate 32 0) = Inl ErrDecryptionFailed \<and>
   ErrInvalidCiphertext \<noteq> ErrDecryptionFailed"
  by (simp add: Decrypt_def NewCipher_def NewGCM_def NonceSize_def Open_def
      ref_primitives_def ref_Open_def)

subsection \<open>Reading items\<close>

lemma find_None_list_ex: "find P xs = None \<longleftrightarrow> \<not> list_ex P xs"
  by (induction xs) simp_all

lemma GetItem_ErrItemNotFound:
  "GetItem d userID itemID = Inl ErrItemNotFound \<longleftrightarrow>
     \<not> list_ex (\<lambda>r. id_col r = itemID \<and> user_id r = userID \<and> \<not> deleted r) (data_items d)"
  by (cases "find (\<lambda>r. id_col r = itemID \<and> user_id r = userID \<and> deleted r = False) (data_items d)")
    (simp_all add: GetItem_def find_None_list_ex [symmetric])

lemma GetItemByName_ErrItemNotFound:
  "GetItemByName d userID nm = Inl ErrItemNotFound \<longleftrightarrow>
     \<not> list_ex (\<lambda>r. user_id r = userID \<and> name r = nm \<and> \<not> deleted r) (data_items d)"
  by (cases "find (\<lambda>r. user_id r = userID \<and> name r = nm \<and> deleted r = False) (data_items d)")
    (simp_all add: GetItemByName_def find_None_list_ex [symmetric])

text \<open>
  Claim C4. \<open>GetItem\<close> fails with \<open>ErrItemNotFound\<close> exactly when every stored row with
  the requested id belongs to another owner or is tombstoned, which includes there being
  no such row; it has no other error, so the three cases give the caller the same result.
  \<open>GetItemByName\<close> is the same with the name in place of the id.
\<close>

theorem get_not_found_uniform:
  "(GetItem d userID itemID = Inl ErrItemNotFound \<longleftrightarrow>
      (\<forall>r \<in> set (data_items d). id_col r = itemID \<longrightarrow> user_id r \<noteq> userID \<or> deleted r)) \<and>
   (\<forall>e. GetItem d userID itemID = Inl e \<longrightarrow> e = ErrItemNotFound) \<and>
   (GetItemByName d userID nm = Inl ErrItemNotFound \<longleftrightarrow>
      (\<forall>r \<in> set (data_items d). name r = nm \<longrightarrow> user_id r \<noteq> userID \<or> deleted r)) \<and>
   (\<forall>e. GetItemByName d userID nm = Inl e \<longrightarrow> e = ErrItemNotFound)"
proof -
  have a: "GetItem d userID itemID = Inl ErrItemNotFound \<longleftrightarrow>
      (\<forall>r \<in> set (data_items d). id_col r = itemID \<longrightarrow> user_id r \<noteq> userID \<or> deleted r)"
    unfolding GetItem_ErrItemNotFound list_ex_iff by blast
  have b: "\<forall>e. GetItem d userID itemID = Inl e \<longrightarrow> e = ErrItemNotFound"
    by (simp add: GetItem_def split: option.splits)
  have c: "GetItemByName d userID nm = Inl ErrItemNotFound \<longleftrightarrow>
      (\<forall>r \<in> set (data_items d). name r = nm \<longrightarrow> user_id r \<noteq> userID \<or> deleted r)"
    unfolding GetItemByName_ErrItemNotFound list_ex_iff by blast
  have e: "\<forall>e. GetItemByName d userID nm = Inl e \<longrightarrow> e = ErrItemNotFound"
    by (simp add: GetItemByName_def split: option.splits)
  from a b c e show ?thesis by blast
qed

lemma scan_item_Metadata: "Metadata (scan_item r) = Mapping.empty"
  by (simp add: scan_item_def Scan_def jsonToMetadata_def)

text \<open>
  Claim C5. \<open>jsonToMetadata\<close> returns the empty map for every input, so every item
  returned by \<open>GetItem\<close>, \<open>GetItemByName\<close>, \<open>ListItems\<close> and
  \<open>GetItemsModifiedAfter\<close> has empty metadata, whatever the database holds.
\<close>

theorem reads_return_empty_metadata:
  "jsonToMetadata jsonStr = Mapping.empty \<and>
   (\<forall>item. GetItem d userID itemID = Inr item \<longrightarrow> Metadata item = Mapping.empty) \<and>
   (\<forall>item. GetItemByName d userID nm = Inr item \<longrightarrow> Metadata item = Mapping.empty) \<and>
   (\<forall>items. ListItems d userID dataType = Inr items \<longrightarrow>
      (\<forall>item \<in> set items. Metadata item = Mapping.empty)) \<and>
   (\<forall>items. GetItemsModifiedAfter d userID timestamp = Inr items \<longrightarrow>
      (\<forall>item \<in> set items. Metadata item = Mapping.empty))"
proof -
  have a: "jsonToMetadata jsonStr = Mapping.empty"
    by (simp add: jsonToMetadata_def)
  have b: "\<forall>item. GetItem d userID itemID = Inr item \<longrightarrow> Metadata item = Mapping.empty"
    by (auto simp: GetItem_def scan_item_Metadata split: option.splits)
  have c: "\<forall>item. GetItemByName d userID nm = Inr item \<longrightarrow> Metadata item = Mapping.empty"
    by (auto simp: GetItemByName_def scan_item_Metadata split: option.splits)
  have e: "\<forall>items. ListItems d userID dataType = Inr items \<longrightarrow>
      (\<forall>item \<in> set items. Metadata item = Mapping.empty)"
    by (auto simp: ListItems_def scan_item_Metadata Let_def)
  have f: "\<forall>items. GetItemsModifiedAfter d userID timestamp = Inr items \<longrightarrow>
      (\<forall>item \<in> set items. Metadata item = Mapping.empty)"
    by (auto simp: GetItemsModifiedAfter_def scan_item_Metadata)
  from a b c e f show ?thesis by blast
qed

lemma scan_item_UpdatedAt: "UpdatedAt (scan_item r) = updated_at r"
  by (simp add: scan_item_def Scan_def)

text \<open>
  Claim C6. \<open>GetItemsModifiedAfter\<close> always returns; what it returns is, as a multiset,
  the rows of the owner whose \<open>updated_at\<close> is strictly greater than the timestamp,
  tombstoned or not, and it is in ascending order of \<open>UpdatedAt\<close>.
\<close>

theorem GetItemsModifiedAfter_exact_ascending:
  "\<exists>items. GetItemsModifiedAfter d userID timestamp = Inr items \<and>
     sorted (map UpdatedAt items) \<and>
     mset items =
       mset (map scan_item
               (filter (\<lambda>r. user_id r = userID \<and> timestamp < updated_at r) (data_items d)))"
proof -
  let ?rows = "filter (\<lambda>r. user_id r = userID \<and> timestamp < updated_at r) (data_items d)"
  have m: "map UpdatedAt (map scan_item (sort_key updated_at ?rows))
             = map updated_at (sort_key updated_at ?rows)"
    by (simp add: scan_item_UpdatedAt comp_def)
  have "sorted (map UpdatedAt (map scan_item (sort_key updated_at ?rows)))"
    unfolding m by (rule sorted_sort_key)
  moreover have "mset (map scan_item (sort_key updated_at ?rows)) = mset (map scan_item ?rows)"
    by simp
  ultimately show ?thesis
    by (simp add: GetItemsModifiedAfter_def order_by_asc_def)
qed

subsection \<open>Versions\<close>

lemma sint_MaxInt64: "sint MaxInt64 = 9223372036854775807"
  by (simp add: MaxInt64_def)

lemma sint_succ_int64:
  fixes v :: int64
  assumes "v \<noteq> MaxInt64"
  shows "sint (v + 1) = sint v + 1"
proof -
  have ub: "sint v < 2 ^ 63"
    using sint_lt [of v] by simp
  have lb: "- (2 ^ 63) \<le> sint v"
    using sint_ge [of v] by simp
  have "sint v \<noteq> sint MaxInt64"
    using assms word_eq_iff_signed [where ?'a = int, of v MaxInt64] by simp
  then have "sint v \<noteq> 9223372036854775807"
    by (simp add: sint_MaxInt64)
  with ub have "sint v + 1 < 2 ^ 63"
    by simp
  moreover from lb have "- (2 ^ 63) \<le> sint v + 1"
    by simp
  ultimately have "signed_take_bit 63 (sint v + 1) = sint v + 1"
    by (simp add: signed_take_bit_int_eq_self)
  then show ?thesis
    by (simp add: sint_word_ariths)
qed

subsection \<open>The conditional update\<close>

lemma pk_unique:
  assumes "distinct (map id_col rows)" "r \<in> set rows" "x \<in> set rows" "id_col x = id_col r"
  shows "r = x"
proof -
  from assms(1) have "inj_on id_col (set rows)"
    by (simp add: distinct_map)
  with assms(2-4) show ?thesis
    by (auto dest: inj_onD)
qed

lemma filter_eq_none: "r \<notin> set xs \<Longrightarrow> filter (\<lambda>x. x = r) xs = []"
  by (induction xs) auto

lemma filter_eq_single:
  "distinct xs \<Longrightarrow> r \<in> set xs \<Longrightarrow> filter (\<lambda>x. x = r) xs = [r]"
  by (induction xs) (auto simp: filter_eq_none)

lemma row_after_replace:
  assumes pk: "distinct (map id_col (data_items d))"
    and r: "r \<in> set (data_items d)"
    and idr': "id_col r' = id_col r"
  shows "filter (\<lambda>x. id_col x = id_col r) (map (\<lambda>x. if x = r then r' else x) (data_items d))
           = [r']"
proof -
  have "filter (\<lambda>x. id_col x = id_col r) (map (\<lambda>x. if x = r then r' else x) (data_items d))
          = map (\<lambda>x. if x = r then r' else x) (filter (\<lambda>x. x = r) (data_items d))"
    unfolding filter_map comp_def
    using pk_unique [OF pk r] idr'
    by (intro arg_cong [where f = "map (\<lambda>x. if x = r then r' else x)"] filter_cong refl) metis
  moreover have "distinct (data_items d)"
    using pk by (simp add: distinct_map)
  then have "filter (\<lambda>x. x = r) (data_items d) = [r]"
    using r by (rule filter_eq_single)
  ultimately show ?thesis
    by simp
qed

lemma find_unique:
  "r \<in> set xs \<Longrightarrow> P r \<Longrightarrow> \<forall>x \<in> set xs. P x \<longrightarrow> r = x \<Longrightarrow> find P xs = Some r"
proof (induction xs)
  case Nil
  then show ?case by simp
next
  case (Cons a xs)
  show ?case
  proof (cases "P a")
    case True
    with Cons.prems(3) have "r = a"
      by (metis list.set_intros(1))
    with True show ?thesis by simp
  next
    case False
    have "r \<in> set xs"
      using Cons.prems(1,2) False by auto
    moreover have "\<forall>x \<in> set xs. P x \<longrightarrow> r = x"
      using Cons.prems(3) by (metis list.set_intros(2))
    ultimately have "find P xs = Some r"
      using Cons.IH Cons.prems(2) by blast
    with False show ?thesis by simp
  qed
qed

lemma update_where_version_miss:
  assumes "\<And>x. x \<in> set (data_items d) \<Longrightarrow>
             \<not> (id_col x = a4 \<and> user_id x = a5 \<and> version x = a6 \<and> \<not> deleted x)"
  shows "update_where_version d a1 a2 a3 a4 a5 a6 = Inr (d, 0)"
proof -
  let ?hit = "\<lambda>r. id_col r = a4 \<and> user_id r = a5 \<and> version r = a6 \<and> deleted r = False"
  have no: "\<And>x. x \<in> set (data_items d) \<Longrightarrow> \<not> ?hit x"
    using assms by simp
  then have f: "filter ?hit (data_items d) = []"
    by (simp add: filter_empty_conv)
  have e: "\<not> list_ex (\<lambda>r. ?hit r \<and> version r = MaxInt64) (data_items d)"
    using no by (auto simp: list_ex_iff)
  have m: "map (\<lambda>r. if ?hit r
                     then r\<lparr>encrypted_data := a1, metadata := a2, updated_at := a3,
                            version := version r + 1\<rparr>
                     else r) (data_items d) = data_items d"
    by (rule map_idI) (use no in auto)
  show ?thesis
    unfolding update_where_version_def Let_def using e f m by simp
qed

lemma update_where_version_hit:
  assumes pk: "distinct (map id_col (data_items d))"
    and r: "r \<in> set (data_items d)"
    and live: "\<not> deleted r"
    and range: "version r \<noteq> MaxInt64"
  shows "update_where_version d a1 a2 a3 (id_col r) (user_id r) (version r) =
           Inr (d\<lparr>data_items :=
                     map (\<lambda>x. if x = r
                               then r\<lparr>encrypted_data := a1, metadata := a2, updated_at := a3,
                                      version := version r + 1\<rparr>
                               else x) (data_items d)\<rparr>,
                Suc 0)"
proof -
  let ?hit = "\<lambda>x. id_col x = id_col r \<and> user_id x = user_id r \<and> version x = version r
                   \<and> deleted x = False"
  have hit: "\<And>x. x \<in> set (data_items d) \<Longrightarrow> ?hit x \<longleftrightarrow> x = r"
    using pk_unique [OF pk r] live by metis
  have e: "\<not> list_ex (\<lambda>x. ?hit x \<and> version x = MaxInt64) (data_items d)"
    using hit range by (auto simp: list_ex_iff)
  have "filter ?hit (data_items d) = filter (\<lambda>x. x = r) (data_items d)"
    using hit by (auto intro: filter_cong)
  moreover have "distinct (data_items d)"
    using pk by (simp add: distinct_map)
  ultimately have f: "length (filter ?hit (data_items d)) = Suc 0"
    using r by (simp add: filter_eq_single)
  have m: "map (\<lambda>x. if ?hit x
                     then x\<lparr>encrypted_data := a1, metadata := a2, updated_at := a3,
                            version := version x + 1\<rparr>
                     else x) (data_items d) =
           map (\<lambda>x. if x = r
                     then r\<lparr>encrypted_data := a1, metadata := a2, updated_at := a3,
                            version := version r + 1\<rparr>
                     else x) (data_items d)"
    using hit by (auto intro!: map_cong)
  show ?thesis
    unfolding update_where_version_def Let_def using e f m by simp
qed

lemma UpdateItem_hit:
  assumes pk: "distinct (map id_col (data_items d))"
    and r: "r \<in> set (data_items d)"
    and target: "ID item = id_col r" "UserID item = user_id r"
    and range: "version r \<noteq> MaxInt64"
    and ok: "version r = Version item" "\<not> deleted r"
    and arg: "driver_arg jsonb (metadataToJSON (Metadata item)) = Some md"
  shows "UpdateItem jsonb d now item =
           (None,
            d\<lparr>data_items :=
                map (\<lambda>x. if x = r
                          then r\<lparr>encrypted_data := EncryptedData item,
                                 metadata := md,
                                 updated_at := now,
                                 version := Version item + 1\<rparr>
                          else x) (data_items d)\<rparr>,
            item\<lparr>UpdatedAt := now\<rparr>)"
  using update_where_version_hit [OF pk r ok(2) range, of "EncryptedData item" md now]
    target ok(1) arg
  by (simp add: UpdateItem_def Let_def)

lemma UpdateItem_unconverted:
  assumes "driver_arg jsonb (metadataToJSON (Metadata item)) = None"
  shows "UpdateItem jsonb d now item = (Some ErrConvertingArgument, d, item\<lparr>UpdatedAt := now\<rparr>)"
  using assms by (simp add: UpdateItem_def Let_def)

lemma UpdateItem_miss:
  assumes pk: "distinct (map id_col (data_items d))"
    and r: "r \<in> set (data_items d)"
    and target: "ID item = id_col r"
    and stale: "version r \<noteq> Version item \<or> deleted r"
    and arg: "driver_arg jsonb (metadataToJSON (Metadata item)) = Some md"
  shows "UpdateItem jsonb d now item = (Some ErrVersionConflict, d, item\<lparr>UpdatedAt := now\<rparr>)"
proof -
  have "\<And>x. x \<in> set (data_items d) \<Longrightarrow>
          \<not> (id_col x = ID item \<and> user_id x = UserID item \<and> version x = Version item
              \<and> \<not> deleted x)"
    using pk_unique [OF pk r] target stale by metis
  then have "update_where_version d (EncryptedData item) md now
               (ID item) (UserID item) (Version item) = Inr (d, 0)"
    by (rule update_where_version_miss)
  with arg show ?thesis
    by (simp add: UpdateItem_def Let_def)
qed

lemma GetItem_live:
  assumes pk: "distinct (map id_col (data_items d))"
    and r: "r \<in> set (data_items d)"
    and live: "\<not> deleted r"
  shows "GetItem d (user_id r) (id_col r) = Inr (scan_item r)"
proof -
  have "\<forall>x \<in> set (data_items d).
          (id_col x = id_col r \<and> user_id x = user_id r \<and> deleted x = False) \<longrightarrow> r = x"
    using pk_unique [OF pk r] by blast
  with r live
  have "find (\<lambda>x. id_col x = id_col r \<and> user_id x = user_id r \<and> deleted x = False)
          (data_items d) = Some r"
    by (intro find_unique) simp_all
  then show ?thesis
    by (simp add: GetItem_def)
qed

lemma scan_item_fields:
  "ID (scan_item r) = id_col r" "UserID (scan_item r) = user_id r"
  "Version (scan_item r) = version r"
  by (simp_all add: scan_item_def Scan_def)

lemma driver_arg_no_tags:
  "Mapping.is_empty m \<Longrightarrow> driver_arg jsonb (metadataToJSON m) = Some None"
  by (simp add: driver_arg_def metadataToJSON_def)

lemma driver_arg_sql_tags:
  "\<not> Mapping.is_empty m \<Longrightarrow> driver_arg sql_jsonb (metadataToJSON m) = None"
  by (simp add: driver_arg_def metadataToJSON_def sql_jsonb_def)

text \<open>
  \<open>Server.UpdateItem\<close>, undisturbed on a live item and with tags the driver can send,
  reports the version it read plus one, the version then stored.
\<close>

lemma Server_UpdateItem_reports_stored_version:
  assumes pk: "distinct (map id_col (data_items d))"
    and r: "r \<in> set (data_items d)"
    and range: "version r \<noteq> MaxInt64"
    and live: "\<not> deleted r"
    and tok: "V (upd_Token req) jwtSecret = Inr claims"
    and own: "claims_UserID claims = user_id r"
    and rid: "upd_ItemId req = id_col r"
    and arg': "driver_arg jsonb
            (metadataToJSON (case upd_Metadata req of None \<Rightarrow> Mapping.empty | Some m \<Rightarrow> m))
            = Some md'"
  shows "\<exists>d'. Server_UpdateItem V jwtSecret jsonb d now req =
                (Inr \<lparr>upd_Message = ''item updated successfully'',
                      upd_NewVersion = version r + 1\<rparr>, d') \<and>
              map version (filter (\<lambda>x. id_col x = id_col r) (data_items d')) = [version r + 1]"
proof -
  define item1 where "item1 = (scan_item r)\<lparr>EncryptedData := upd_EncryptedData req\<rparr>"
  define item2 where
    "item2 = (case upd_Metadata req of None \<Rightarrow> item1 | Some m \<Rightarrow> item1\<lparr>Metadata := m\<rparr>)"
  define r' where
    "r' = r\<lparr>encrypted_data := EncryptedData item2,
             metadata := md',
             updated_at := now,
             version := Version item2 + 1\<rparr>"
  define d' where
    "d' = d\<lparr>data_items := map (\<lambda>x. if x = r then r' else x) (data_items d)\<rparr>"
  have f2: "ID item2 = id_col r" "UserID item2 = user_id r" "Version item2 = version r"
    by (simp_all add: item2_def item1_def scan_item_fields split: option.splits)
  have g: "GetItem d (claims_UserID claims) (upd_ItemId req) = Inr (scan_item r)"
    using GetItem_live [OF pk r live] own rid by simp
  have "Metadata item2 = (case upd_Metadata req of None \<Rightarrow> Mapping.empty | Some m \<Rightarrow> m)"
    by (simp add: item2_def item1_def scan_item_Metadata split: option.splits)
  with arg' have a2: "driver_arg jsonb (metadataToJSON (Metadata item2)) = Some md'"
    by simp
  have u: "UpdateItem jsonb d now item2 = (None, d', item2\<lparr>UpdatedAt := now\<rparr>)"
    using UpdateItem_hit [OF pk r f2(1,2) range f2(3) [symmetric] live a2, of now]
    by (simp add: d'_def r'_def)
  have res: "Server_UpdateItem V jwtSecret jsonb d now req =
               (Inr \<lparr>upd_Message = ''item updated successfully'',
                     upd_NewVersion = version r + 1\<rparr>, d')"
    using tok g u f2(3)
    by (simp add: Server_UpdateItem_def Let_def item1_def [symmetric] item2_def [symmetric])
  have idr': "id_col r' = id_col r"
    by (simp add: r'_def)
  have "map version (filter (\<lambda>x. id_col x = id_col r) (data_items d')) = [version r']"
    using row_after_replace [OF pk r idr'] by (simp add: d'_def)
  then have v: "map version (filter (\<lambda>x. id_col x = id_col r) (data_items d')) = [version r + 1]"
    by (simp add: r'_def f2(3))
  from res v show ?thesis
    by (intro exI [where x = d'] conjI)
qed

text \<open>
  Claim C2, as the code has it. Let the ids of the table be distinct, let \<open>r\<close> be the
  stored row that an update request \<open>item\<close> addresses by id and owner, with a version
  below the largest BIGINT, and let the request carry no tags. \<open>UpdateItem\<close> succeeds if
  and only if the version of \<open>r\<close> equals the version the request presents and \<open>r\<close> is
  not tombstoned. On success the row holds the request's data, \<open>updated_at\<close> is the
  current time and the version is the presented version plus one, without wrap-around,
  while every other row is as before. Otherwise the result is \<open>ErrVersionConflict\<close> and
  the database is unchanged. Check and write are the single \<open>UPDATE\<close> statement
  \<open>update_where_version\<close>. The call returns only success or the error: the item it
  hands back still carries the presented version.
\<close>

theorem UpdateItem_check_and_set:
  assumes pk: "distinct (map id_col (data_items d))"
    and r: "r \<in> set (data_items d)"
    and target: "ID item = id_col r" "UserID item = user_id r"
    and range: "version r \<noteq> MaxInt64"
    and notags: "Mapping.is_empty (Metadata item)"
  shows "(fst (UpdateItem jsonb d now item) = None \<longleftrightarrow>
            version r = Version item \<and> \<not> deleted r) \<and>
         (version r = Version item \<and> \<not> deleted r \<longrightarrow>
            UpdateItem jsonb d now item =
              (None,
               d\<lparr>data_items :=
                   map (\<lambda>x. if x = r
                             then r\<lparr>encrypted_data := EncryptedData item,
                                    metadata := None,
                                    updated_at := now,
                                    version := Version item + 1\<rparr>
                             else x) (data_items d)\<rparr>,
               item\<lparr>UpdatedAt := now\<rparr>) \<and>
            sint (Version item + 1) = sint (Version item) + 1) \<and>
         (\<not> (version r = Version item \<and> \<not> deleted r) \<longrightarrow>
            UpdateItem jsonb d now item = (Some ErrVersionConflict, d, item\<lparr>UpdatedAt := now\<rparr>)) \<and>
         Version (snd (snd (UpdateItem jsonb d now item))) = Version item"
proof -
  have arg: "driver_arg jsonb (metadataToJSON (Metadata item)) = Some None"
    using notags by (rule driver_arg_no_tags)
  have hit: "version r = Version item \<and> \<not> deleted r \<Longrightarrow>
      UpdateItem jsonb d now item =
        (None,
         d\<lparr>data_items :=
             map (\<lambda>x. if x = r
                       then r\<lparr>encrypted_data := EncryptedData item,
                              metadata := None,
                              updated_at := now,
                              version := Version item + 1\<rparr>
                       else x) (data_items d)\<rparr>,
         item\<lparr>UpdatedAt := now\<rparr>)"
    using UpdateItem_hit [OF pk r target range _ _ arg] by simp
  have miss: "\<not> (version r = Version item \<and> \<not> deleted r) \<Longrightarrow>
      UpdateItem jsonb d now item = (Some ErrVersionConflict, d, item\<lparr>UpdatedAt := now\<rparr>)"
    using UpdateItem_miss [OF pk r target(1) _ arg] by blast
  have a: "fst (UpdateItem jsonb d now item) = None \<longleftrightarrow>
            version r = Version item \<and> \<not> deleted r"
  proof (cases "version r = Version item \<and> \<not> deleted r")
    case True
    with hit show ?thesis by simp
  next
    case False
    with miss show ?thesis by simp
  qed
  have s: "version r = Version item \<Longrightarrow> sint (Version item + 1) = sint (Version item) + 1"
    using range sint_succ_int64 [of "Version item"] by simp
  have b: "version r = Version item \<and> \<not> deleted r \<longrightarrow>
            UpdateItem jsonb d now item =
              (None,
               d\<lparr>data_items :=
                   map (\<lambda>x. if x = r
                             then r\<lparr>encrypted_data := EncryptedData item,
                                    metadata := None,
                                    updated_at := now,
                                    version := Version item + 1\<rparr>
                             else x) (data_items d)\<rparr>,
               item\<lparr>UpdatedAt := now\<rparr>) \<and>
            sint (Version item + 1) = sint (Version item) + 1"
  proof (intro impI conjI)
    assume ok: "version r = Version item \<and> \<not> deleted r"
    then show "UpdateItem jsonb d now item =
              (None,
               d\<lparr>data_items :=
                   map (\<lambda>x. if x = r
                             then r\<lparr>encrypted_data := EncryptedData item,
                                    metadata := None,
                                    updated_at := now,
                                    version := Version item + 1\<rparr>
                             else x) (data_items d)\<rparr>,
               item\<lparr>UpdatedAt := now\<rparr>)"
      by (rule hit)
    from ok have "version r = Version item" ..
    then show "sint (Version item + 1) = sint (Version item) + 1"
      by (rule s)
  qed
  have c: "\<not> (version r = Version item \<and> \<not> deleted r) \<longrightarrow>
            UpdateItem jsonb d now item = (Some ErrVersionConflict, d, item\<lparr>UpdatedAt := now\<rparr>)"
    using miss by (intro impI)
  have e: "Version (snd (snd (UpdateItem jsonb d now item))) = Version item"
  proof (cases "version r = Version item \<and> \<not> deleted r")
    case True
    with hit show ?thesis by simp
  next
    case False
    with miss show ?thesis by simp
  qed
  from a b c e show ?thesis
    by (intro conjI)
qed

lemmas ref_store_defs =
  ref_db_def github_row_def notes_row_def card_row_def alice_def bob_def

lemma ref_db_pk: "distinct (map id_col (data_items ref_db))"
  by (simp add: ref_store_defs)

lemma github_row_stored: "github_row \<in> set (data_items ref_db)"
  by (simp add: ref_db_def)

lemma github_row_range: "version github_row \<noteq> MaxInt64"
  by (simp add: github_row_def MaxInt64_def)

lemma driver_arg_empty: "driver_arg jsonb (metadataToJSON Mapping.empty) = Some None"
  by (simp add: driver_arg_def metadataToJSON_def)

lemma github_update_no_tags: "Mapping.is_empty (Metadata (github_update v))"
  by (simp add: github_update_def)

lemma github_tagged_update_unsent:
  "driver_arg sql_jsonb (metadataToJSON (Metadata (github_tagged_update\<lparr>EncryptedData := e\<rparr>)))
     = None"
  "driver_arg sql_jsonb (metadataToJSON (Metadata github_tagged_update)) = None"
  by (simp_all add: github_tagged_update_def site_tags_def driver_arg_sql_tags)

lemma max_db_overflow:
  assumes "ID item = ''i1''" "UserID item = ''u1''" "Version item = MaxInt64"
    and "Mapping.is_empty (Metadata item)"
  shows "UpdateItem jsonb max_db now item =
           (Some (PqError NumericValueOutOfRange), max_db, item\<lparr>UpdatedAt := now\<rparr>)"
  using assms driver_arg_no_tags [OF assms(4), of jsonb]
  by (simp add: UpdateItem_def Let_def update_where_version_def max_db_def max_row_def
      github_row_def)

text \<open>
  With the program's driver, an update that carries a tag fails with the conversion error
  although the presented version is the stored one and the row is live. An update without
  tags succeeds, and the item handed back still carries version 1. At the largest BIGINT
  version a matching update of a live row fails with the database's range error.
\<close>

theorem UpdateItem_check_and_set_counterexample:
  "ID github_tagged_update = id_col github_row \<and>
   UserID github_tagged_update = user_id github_row \<and>
   version github_row = Version github_tagged_update \<and> deleted github_row = False \<and>
   UpdateItem sql_jsonb ref_db 5000000000 github_tagged_update =
     (Some ErrConvertingArgument, ref_db, github_tagged_update\<lparr>UpdatedAt := 5000000000\<rparr>) \<and>
   fst (UpdateItem sql_jsonb ref_db 5000000000 (github_update 1)) = None \<and>
   Version (snd (snd (UpdateItem sql_jsonb ref_db 5000000000 (github_update 1)))) = 1 \<and>
   version max_row = Version (github_update MaxInt64) \<and> deleted max_row = False \<and>
   UpdateItem sql_jsonb max_db 5000000000 (github_update MaxInt64) =
     (Some (PqError NumericValueOutOfRange), max_db,
      (github_update MaxInt64)\<lparr>UpdatedAt := 5000000000\<rparr>)"
proof -
  have f: "ID github_tagged_update = id_col github_row"
    "UserID github_tagged_update = user_id github_row"
    "version github_row = Version github_tagged_update" "deleted github_row = False"
    "version max_row = Version (github_update MaxInt64)" "deleted max_row = False"
    by (simp_all add: github_tagged_update_def github_update_def github_row_def max_row_def)
  have t: "UpdateItem sql_jsonb ref_db 5000000000 github_tagged_update =
     (Some ErrConvertingArgument, ref_db, github_tagged_update\<lparr>UpdatedAt := 5000000000\<rparr>)"
    using github_tagged_update_unsent(2) by (rule UpdateItem_unconverted)
  have g: "ID (github_update 1) = id_col github_row"
    "UserID (github_update 1) = user_id github_row"
    "version github_row = Version (github_update 1)" "\<not> deleted github_row"
    by (simp_all add: github_update_def github_row_def)
  have u: "fst (UpdateItem sql_jsonb ref_db 5000000000 (github_update 1)) = None"
    "Version (snd (snd (UpdateItem sql_jsonb ref_db 5000000000 (github_update 1)))) = 1"
    using UpdateItem_hit [OF ref_db_pk github_row_stored g(1,2) github_row_range g(3,4)
        driver_arg_no_tags [OF github_update_no_tags [of 1], of sql_jsonb],
        where now = 5000000000]
    by (simp_all add: github_update_def)
  have m: "UpdateItem sql_jsonb max_db 5000000000 (github_update MaxInt64) =
     (Some (PqError NumericValueOutOfRange), max_db,
      (github_update MaxInt64)\<lparr>UpdatedAt := 5000000000\<rparr>)"
    by (rule max_db_overflow) (simp_all add: github_update_def)
  from f t u m show ?thesis
    by (intro conjI)
qed

theorem UpdateItem_check_and_set_witness:
  "distinct (map id_col (data_items ref_db)) \<and> github_row \<in> set (data_items ref_db) \<and>
   version github_row \<noteq> MaxInt64 \<and> Mapping.is_empty (Metadata (github_update 1)) \<and>
   fst (UpdateItem sql_jsonb ref_db 5000000000 (github_update 1)) = None \<and>
   sint (Version (github_update 1) + 1) = 2 \<and>
   UpdateItem sql_jsonb ref_db 5000000000 (github_update 7) =
     (Some ErrVersionConflict, ref_db, (github_update 7)\<lparr>UpdatedAt := 5000000000\<rparr>) \<and>
   Version (snd (snd (UpdateItem sql_jsonb ref_db 5000000000 (github_update 7)))) = 7"
proof -
  have t1: "ID (github_update 1) = id_col github_row" "UserID (github_update 1) = user_id github_row"
    and t7: "ID (github_update 7) = id_col github_row" "UserID (github_update 7) = user_id github_row"
    by (simp_all add: github_update_def github_row_def)
  note a = UpdateItem_check_and_set
      [OF ref_db_pk github_row_stored t1 github_row_range github_update_no_tags,
       where jsonb = sql_jsonb and now = 5000000000]
  note b = UpdateItem_check_and_set
      [OF ref_db_pk github_row_stored t7 github_row_range github_update_no_tags,
       where jsonb = sql_jsonb and now = 5000000000]
  have v1: "version github_row = Version (github_update 1) \<and> \<not> deleted github_row"
    by (simp add: github_update_def github_row_def)
  have v7: "\<not> (version github_row = Version (github_update 7) \<and> \<not> deleted github_row)"
    by (simp add: github_update_def github_row_def)
  from a v1 have "fst (UpdateItem sql_jsonb ref_db 5000000000 (github_update 1)) = None"
    and "sint (Version (github_update 1) + 1) = sint (Version (github_update 1)) + 1"
    by blast+
  moreover from b v7 have "UpdateItem sql_jsonb ref_db 5000000000 (github_update 7) =
     (Some ErrVersionConflict, ref_db, (github_update 7)\<lparr>UpdatedAt := 5000000000\<rparr>)"
    by blast
  moreover from b have "Version (snd (snd (UpdateItem sql_jsonb ref_db 5000000000 (github_update 7))))
      = Version (github_update 7)"
    by blast
  ultimately show ?thesis
    using ref_db_pk github_row_stored github_row_range github_update_no_tags [of 1]
    by (simp add: github_update_def)
qed

lemma UpdateItem_twice:
  assumes pk: "distinct (map id_col (data_items d))"
    and r: "r \<in> set (data_items d)"
    and live: "\<not> deleted r"
    and range: "version r \<noteq> MaxInt64"
    and a: "ID a = id_col r" "UserID a = user_id r" "Version a = version r"
      "driver_arg jsonb (metadataToJSON (Metadata a)) = Some ma"
    and b: "ID b = id_col r" "Version b = version r"
      "driver_arg jsonb (metadataToJSON (Metadata b)) = Some mb"
  shows "\<exists>d1. UpdateItem jsonb d t1 a = (None, d1, a\<lparr>UpdatedAt := t1\<rparr>) \<and>
              UpdateItem jsonb d1 t2 b = (Some ErrVersionConflict, d1, b\<lparr>UpdatedAt := t2\<rparr>) \<and>
              map version (filter (\<lambda>x. id_col x = id_col r) (data_items d1)) = [version r + 1]"
proof -
  define r' where
    "r' = r\<lparr>encrypted_data := EncryptedData a,
             metadata := ma,
             updated_at := t1,
             version := Version a + 1\<rparr>"
  define d1 where "d1 = d\<lparr>data_items := map (\<lambda>x. if x = r then r' else x) (data_items d)\<rparr>"
  have first: "UpdateItem jsonb d t1 a = (None, d1, a\<lparr>UpdatedAt := t1\<rparr>)"
    using UpdateItem_hit [OF pk r a(1,2) range a(3) [symmetric] live a(4), of t1]
    by (simp add: d1_def r'_def)
  have idr': "id_col r' = id_col r"
    by (simp add: r'_def)
  have ids: "map id_col (data_items d1) = map id_col (data_items d)"
    by (simp add: d1_def idr' comp_def cong: map_cong)
  have pk1: "distinct (map id_col (data_items d1))"
    using pk by (simp add: ids)
  have r1: "r' \<in> set (data_items d1)"
    using r by (auto simp: d1_def)
  have "version r' = version r + 1"
    by (simp add: r'_def a(3))
  then have stale: "version r' \<noteq> Version b \<or> deleted r'"
    by (simp add: b(2))
  have second: "UpdateItem jsonb d1 t2 b = (Some ErrVersionConflict, d1, b\<lparr>UpdatedAt := t2\<rparr>)"
    using pk1 r1 _ stale b(3) by (rule UpdateItem_miss) (simp add: b(1) idr')
  have "map version (filter (\<lambda>x. id_col x = id_col r) (data_items d1)) = [version r']"
    using row_after_replace [OF pk r idr'] by (simp add: d1_def)
  then have v: "map version (filter (\<lambda>x. id_col x = id_col r) (data_items d1)) = [version r + 1]"
    by (simp add: r'_def a(3))
  from first second v show ?thesis
    by (intro exI [where x = d1] conjI)
qed

subsection \<open>Two updates of one version\<close>

text \<open>
  Claim C10, as the code has it. The ids of the table are distinct, as its primary key has
  it. Two calls of \<open>UpdateItem\<close> without tags address the same live row, by id and
  owner, at version \<open>N\<close> below the largest BIGINT, and both present \<open>N\<close>. Each call is
  the single conditional \<open>UPDATE\<close> statement, one step of the database, so the two calls
  take effect in one of two orders. In either order the first succeeds and leaves the stored
  version \<open>N + 1\<close>, and the second fails with \<open>ErrVersionConflict\<close> and changes nothing.
  A call returns the error alone: the item it hands back still carries the presented
  version \<open>N\<close>.
\<close>

theorem concurrent_updates_exactly_one_succeeds:
  assumes pk: "distinct (map id_col (data_items d))"
    and r: "r \<in> set (data_items d)"
    and live: "\<not> deleted r"
    and range: "version r \<noteq> MaxInt64"
    and a: "ID a = id_col r" "UserID a = user_id r" "Version a = version r"
      "Mapping.is_empty (Metadata a)"
    and b: "ID b = id_col r" "UserID b = user_id r" "Version b = version r"
      "Mapping.is_empty (Metadata b)"
  shows "(\<exists>d1. UpdateItem jsonb d ta a = (None, d1, a\<lparr>UpdatedAt := ta\<rparr>) \<and>
               UpdateItem jsonb d1 tb b = (Some ErrVersionConflict, d1, b\<lparr>UpdatedAt := tb\<rparr>) \<and>
               map version (filter (\<lambda>x. id_col x = id_col r) (data_items d1)) = [version r + 1]) \<and>
         (\<exists>d1. UpdateItem jsonb d tb b = (None, d1, b\<lparr>UpdatedAt := tb\<rparr>) \<and>
               UpdateItem jsonb d1 ta a = (Some ErrVersionConflict, d1, a\<lparr>UpdatedAt := ta\<rparr>) \<and>
               map version (filter (\<lambda>x. id_col x = id_col r) (data_items d1)) = [version r + 1]) \<and>
         sint (version r + 1) = sint (version r) + 1 \<and>
         Version (a\<lparr>UpdatedAt := ta\<rparr>) = version r \<and> Version (b\<lparr>UpdatedAt := tb\<rparr>) = version r"
proof (intro conjI)
  note sa = driver_arg_no_tags [OF a(4), of jsonb]
  note sb = driver_arg_no_tags [OF b(4), of jsonb]
  show "\<exists>d1. UpdateItem jsonb d ta a = (None, d1, a\<lparr>UpdatedAt := ta\<rparr>) \<and>
               UpdateItem jsonb d1 tb b = (Some ErrVersionConflict, d1, b\<lparr>UpdatedAt := tb\<rparr>) \<and>
               map version (filter (\<lambda>x. id_col x = id_col r) (data_items d1)) = [version r + 1]"
    using pk r live range a(1,2,3) sa b(1,3) sb by (rule UpdateItem_twice)
  show "\<exists>d1. UpdateItem jsonb d tb b = (None, d1, b\<lparr>UpdatedAt := tb\<rparr>) \<and>
               UpdateItem jsonb d1 ta a = (Some ErrVersionConflict, d1, a\<lparr>UpdatedAt := ta\<rparr>) \<and>
               map version (filter (\<lambda>x. id_col x = id_col r) (data_items d1)) = [version r + 1]"
    using pk r live range b(1,2,3) sb a(1,3) sa by (rule UpdateItem_twice)
  show "sint (version r + 1) = sint (version r) + 1"
    using range by (rule sint_succ_int64)
  show "Version (a\<lparr>UpdatedAt := ta\<rparr>) = version r"
    by (simp add: a(3))
  show "Version (b\<lparr>UpdatedAt := tb\<rparr>) = version r"
    by (simp add: b(3))
qed

text \<open>
  With the program's driver, two updates that carry a tag and present the stored version of
  a live row both fail with the conversion error, in either order, and the row stays as it
  was. Two updates without tags that present the largest BIGINT version of a live row at
  that version both fail with the database's range error. And the update that succeeds
  hands back an item at the presented version 1, not 2.
\<close>

theorem concurrent_updates_counterexample:
  "Version github_tagged_update = version github_row \<and>
   Version (github_tagged_update\<lparr>EncryptedData := [5]\<rparr>) = version github_row \<and>
   deleted github_row = False \<and>
   UpdateItem sql_jsonb ref_db 5000000000 github_tagged_update =
     (Some ErrConvertingArgument, ref_db, github_tagged_update\<lparr>UpdatedAt := 5000000000\<rparr>) \<and>
   UpdateItem sql_jsonb ref_db 5000000001 (github_tagged_update\<lparr>EncryptedData := [5]\<rparr>) =
     (Some ErrConvertingArgument, ref_db,
      github_tagged_update\<lparr>EncryptedData := [5], UpdatedAt := 5000000001\<rparr>) \<and>
   Version (github_update MaxInt64) = version max_row \<and> deleted max_row = False \<and>
   UpdateItem sql_jsonb max_db 5000000000 (github_update MaxInt64) =
     (Some (PqError NumericValueOutOfRange), max_db,
      (github_update MaxInt64)\<lparr>UpdatedAt := 5000000000\<rparr>) \<and>
   UpdateItem sql_jsonb max_db 5000000001 ((github_update MaxInt64)\<lparr>EncryptedData := [5]\<rparr>) =
     (Some (PqError NumericValueOutOfRange), max_db,
      (github_update MaxInt64)\<lparr>EncryptedData := [5], UpdatedAt := 5000000001\<rparr>) \<and>
   fst (UpdateItem sql_jsonb ref_db 5000000000 (github_update 1)) = None \<and>
   Version (snd (snd (UpdateItem sql_jsonb ref_db 5000000000 (github_update 1)))) = 1"
proof -
  have f: "Version github_tagged_update = version github_row"
    "Version (github_tagged_update\<lparr>EncryptedData := [5]\<rparr>) = version github_row"
    "deleted github_row = False"
    "Version (github_update MaxInt64) = version max_row" "deleted max_row = False"
    by (simp_all add: github_tagged_update_def github_update_def github_row_def max_row_def)
  have ta: "UpdateItem sql_jsonb ref_db 5000000000 github_tagged_update =
     (Some ErrConvertingArgument, ref_db, github_tagged_update\<lparr>UpdatedAt := 5000000000\<rparr>)"
    using github_tagged_update_unsent(2) by (rule UpdateItem_unconverted)
  have tb: "UpdateItem sql_jsonb ref_db 5000000001 (github_tagged_update\<lparr>EncryptedData := [5]\<rparr>) =
     (Some ErrConvertingArgument, ref_db,
      github_tagged_update\<lparr>EncryptedData := [5], UpdatedAt := 5000000001\<rparr>)"
    using github_tagged_update_unsent(1) by (rule UpdateItem_unconverted)
  have ma: "UpdateItem sql_jsonb max_db 5000000000 (github_update MaxInt64) =
     (Some (PqError NumericValueOutOfRange), max_db,
      (github_update MaxInt64)\<lparr>UpdatedAt := 5000000000\<rparr>)"
    by (rule max_db_overflow) (simp_all add: github_update_def)
  have mb: "UpdateItem sql_jsonb max_db 5000000001 ((github_update MaxInt64)\<lparr>EncryptedData := [5]\<rparr>) =
     (Some (PqError NumericValueOutOfRange), max_db,
      (github_update MaxInt64)\<lparr>EncryptedData := [5], UpdatedAt := 5000000001\<rparr>)"
    by (rule max_db_overflow) (simp_all add: github_update_def)
  have g: "ID (github_update 1) = id_col github_row"
    "UserID (github_update 1) = user_id github_row"
    "version github_row = Version (github_update 1)" "\<not> deleted github_row"
    by (simp_all add: github_update_def github_row_def)
  have u: "fst (UpdateItem sql_jsonb ref_db 5000000000 (github_update 1)) = None"
    "Version (snd (snd (UpdateItem sql_jsonb ref_db 5000000000 (github_update 1)))) = 1"
    using UpdateItem_hit [OF ref_db_pk github_row_stored g(1,2) github_row_range g(3,4)
        driver_arg_no_tags [OF github_update_no_tags [of 1], of sql_jsonb],
        where now = 5000000000]
    by (simp_all add: github_update_def)
  from f ta tb ma mb u show ?thesis
    by (intro conjI)
qed

theorem concurrent_updates_exactly_one_succeeds_witness:
  "distinct (map id_col (data_items ref_db)) \<and> github_row \<in> set (data_items ref_db) \<and>
   \<not> deleted github_row \<and> version github_row \<noteq> MaxInt64 \<and>
   Version (github_update 1) = version github_row \<and>
   Mapping.is_empty (Metadata (github_update 1)) \<and>
   Mapping.is_empty (Metadata ((github_update 1)\<lparr>EncryptedData := [5]\<rparr>)) \<and>
   (\<exists>d1. UpdateItem sql_jsonb ref_db 5000000000 (github_update 1) =
            (None, d1, (github_update 1)\<lparr>UpdatedAt := 5000000000\<rparr>) \<and>
         UpdateItem sql_jsonb d1 5000000001 ((github_update 1)\<lparr>EncryptedData := [5]\<rparr>) =
            (Some ErrVersionConflict, d1,
             (github_update 1)\<lparr>EncryptedData := [5], UpdatedAt := 5000000001\<rparr>) \<and>
         map version (filter (\<lambda>x. id_col x = ''i1'') (data_items d1)) = [2])"
proof -
  have live: "\<not> deleted github_row"
    by (simp add: github_row_def)
  have a: "ID (github_update 1) = id_col github_row"
    "UserID (github_update 1) = user_id github_row"
    "Version (github_update 1) = version github_row"
    "Mapping.is_empty (Metadata (github_update 1))"
    by (simp_all add: github_update_def github_row_def)
  have b: "ID ((github_update 1)\<lparr>EncryptedData := [5]\<rparr>) = id_col github_row"
    "UserID ((github_update 1)\<lparr>EncryptedData := [5]\<rparr>) = user_id github_row"
    "Version ((github_update 1)\<lparr>EncryptedData := [5]\<rparr>) = version github_row"
    "Mapping.is_empty (Metadata ((github_update 1)\<lparr>EncryptedData := [5]\<rparr>))"
    by (simp_all add: github_update_def github_row_def)
  have i1: "id_col github_row = ''i1''" and ver: "version github_row + 1 = 2"
    by (simp_all add: github_row_def)
  from concurrent_updates_exactly_one_succeeds
         [OF ref_db_pk github_row_stored live github_row_range a b,
          where jsonb = sql_jsonb and ta = 5000000000 and tb = 5000000001]
  have "\<exists>d1. UpdateItem sql_jsonb ref_db 5000000000 (github_update 1) =
            (None, d1, (github_update 1)\<lparr>UpdatedAt := 5000000000\<rparr>) \<and>
         UpdateItem sql_jsonb d1 5000000001 ((github_update 1)\<lparr>EncryptedData := [5]\<rparr>) =
            (Some ErrVersionConflict, d1,
             (github_update 1)\<lparr>EncryptedData := [5], UpdatedAt := 5000000001\<rparr>) \<and>
         map version (filter (\<lambda>x. id_col x = ''i1'') (data_items d1)) = [2]"
    by (simp add: i1 ver)
  with ref_db_pk github_row_stored live github_row_range a(3,4) b(4) show ?thesis
    by (intro conjI)
qed

subsection \<open>Names of items\<close>

lemma CreateItem_cases:
  assumes "driver_arg jsonb (metadataToJSON (Metadata item)) = Some md"
  shows "CreateItem jsonb d uuid now1 now2 item =
     (case insert_data_items d
             \<lparr>id_col = (if ID item = [] then uuid else ID item), user_id = UserID item,
              type_col = Type item, name = Name item, encrypted_data = EncryptedData item,
              metadata = md,
              created_at = now1, updated_at = now2, version = 1, deleted = Deleted item\<rparr> of
        Inl err \<Rightarrow>
          (Some (PqError err), d,
           (if ID item = [] then item\<lparr>ID := uuid\<rparr> else item)
             \<lparr>CreatedAt := now1, UpdatedAt := now2, Version := 1\<rparr>)
      | Inr d' \<Rightarrow>
          (None, d',
           (if ID item = [] then item\<lparr>ID := uuid\<rparr> else item)
             \<lparr>CreatedAt := now1, UpdatedAt := now2, Version := 1\<rparr>))"
  using assms by (cases "ID item = []") (simp_all add: CreateItem_def Let_def)

lemma new_item_arg:
  "driver_arg jsonb (metadataToJSON (Metadata (new_item uid nm Mapping.empty))) = Some None"
  by (simp add: new_item_def driver_arg_empty)









subsection \<open>The operations on the small store\<close>

theorem get_not_found_uniform_witness:
  "GetItem ref_db ''u1'' ''i9'' = Inl ErrItemNotFound \<and>
   GetItem ref_db ''u1'' ''i2'' = Inl ErrItemNotFound \<and>
   GetItem ref_db ''u1'' ''i3'' = Inl ErrItemNotFound \<and>
   GetItem ref_db ''u1'' ''i1'' \<noteq> Inl ErrItemNotFound \<and>
   GetItemByName ref_db ''u1'' ''Nothing'' = Inl ErrItemNotFound \<and>
   GetItemByName ref_db ''u1'' ''Notes'' = Inl ErrItemNotFound \<and>
   GetItemByName ref_db ''u1'' ''Visa'' = Inl ErrItemNotFound \<and>
   GetItemByName ref_db ''u1'' ''GitHub'' \<noteq> Inl ErrItemNotFound"
proof -
  have rows: "set (data_items ref_db) = {github_row, notes_row, card_row}"
    by (simp add: ref_db_def)
  note r = github_row_def notes_row_def card_row_def
  from get_not_found_uniform [of ref_db "''u1''" "''i9''" "''Nothing''"]
  have a: "GetItem ref_db ''u1'' ''i9'' = Inl ErrItemNotFound"
    and e: "GetItemByName ref_db ''u1'' ''Nothing'' = Inl ErrItemNotFound"
    by (simp_all add: rows r)
  from get_not_found_uniform [of ref_db "''u1''" "''i2''" "''Notes''"]
  have b: "GetItem ref_db ''u1'' ''i2'' = Inl ErrItemNotFound"
    and f: "GetItemByName ref_db ''u1'' ''Notes'' = Inl ErrItemNotFound"
    by (simp_all add: rows r)
  from get_not_found_uniform [of ref_db "''u1''" "''i3''" "''Visa''"]
  have c: "GetItem ref_db ''u1'' ''i3'' = Inl ErrItemNotFound"
    and g: "GetItemByName ref_db ''u1'' ''Visa'' = Inl ErrItemNotFound"
    by (simp_all add: rows r)
  from get_not_found_uniform [of ref_db "''u1''" "''i1''" "''GitHub''"]
  have d: "GetItem ref_db ''u1'' ''i1'' \<noteq> Inl ErrItemNotFound"
    and h: "GetItemByName ref_db ''u1'' ''GitHub'' \<noteq> Inl ErrItemNotFound"
    by (simp_all add: rows r)
  from a b c d e f g h show ?thesis
    by (intro conjI)
qed

theorem reads_return_empty_metadata_witness:
  "metadata github_row = Some ''{...}'' \<and>
   (\<exists>item. GetItem ref_db ''u1'' ''i1'' = Inr item \<and> Metadata item = Mapping.empty) \<and>
   (\<exists>item. GetItemByName ref_db ''u1'' ''GitHub'' = Inr item \<and> Metadata item = Mapping.empty) \<and>
   (\<exists>items. ListItems ref_db ''u1'' [] = Inr items \<and> length items = 1 \<and>
      (\<forall>item \<in> set items. Metadata item = Mapping.empty)) \<and>
   (\<exists>items. GetItemsModifiedAfter ref_db ''u1'' 0 = Inr items \<and> length items = 2 \<and>
      (\<forall>item \<in> set items. Metadata item = Mapping.empty))"
proof -
  note t = reads_return_empty_metadata [of "''{...}''" ref_db "''u1''" "''i1''" "''GitHub''" "[]" 0]
  have g: "GetItem ref_db ''u1'' ''i1'' = Inr (scan_item github_row)"
    by (simp add: GetItem_def ref_db_def github_row_def)
  have n: "GetItemByName ref_db ''u1'' ''GitHub'' = Inr (scan_item github_row)"
    by (simp add: GetItemByName_def ref_db_def github_row_def)
  have l: "ListItems ref_db ''u1'' [] = Inr [scan_item github_row]"
    by (simp add: ListItems_def order_by_desc_def ref_db_def github_row_def notes_row_def
        card_row_def)
  have m: "GetItemsModifiedAfter ref_db ''u1'' 0 = Inr [scan_item github_row, scan_item notes_row]"
    by (simp add: GetItemsModifiedAfter_def order_by_asc_def ref_db_def github_row_def
        notes_row_def card_row_def)
  from t g have 1: "Metadata (scan_item github_row) = Mapping.empty"
    by blast
  from t m have 2: "\<forall>item \<in> set [scan_item github_row, scan_item notes_row].
      Metadata item = Mapping.empty"
    by blast
  have 0: "metadata github_row = Some ''{...}''"
    by (simp add: github_row_def)
  from 0 g n l m 1 2 show ?thesis
    by simp
qed

theorem GetItemsModifiedAfter_exact_ascending_witness:
  "\<exists>items. GetItemsModifiedAfter ref_db ''u1'' 500000000 = Inr items \<and>
     map ID items = [''i1'', ''i2''] \<and> map Deleted items = [False, True] \<and>
     map UpdatedAt items = [1000000000, 3000000000] \<and> sorted (map UpdatedAt items) \<and>
     GetItemsModifiedAfter ref_db ''u1'' 1000000000 = Inr [scan_item notes_row]"
proof -
  from GetItemsModifiedAfter_exact_ascending [of ref_db "''u1''" 500000000]
  obtain items where
    i: "GetItemsModifiedAfter ref_db ''u1'' 500000000 = Inr items"
    and s: "sorted (map UpdatedAt items)"
    by blast
  have m: "GetItemsModifiedAfter ref_db ''u1'' 500000000 = Inr [scan_item github_row, scan_item notes_row]"
    by (simp add: GetItemsModifiedAfter_def order_by_asc_def ref_db_def github_row_def
        notes_row_def card_row_def)
  have m2: "GetItemsModifiedAfter ref_db ''u1'' 1000000000 = Inr [scan_item notes_row]"
    by (simp add: GetItemsModifiedAfter_def order_by_asc_def ref_db_def github_row_def
        notes_row_def card_row_def)
  from i m have eq: "items = [scan_item github_row, scan_item notes_row]"
    by simp
  have "map ID items = [''i1'', ''i2'']" "map Deleted items = [False, True]"
    "map UpdatedAt items = [1000000000, 3000000000]"
    by (simp_all add: eq scan_item_def Scan_def github_row_def notes_row_def)
  with i s m2 show ?thesis
    by (intro exI [where x = items] conjI)
qed

subsection \<open>The synchronisation watermark\<close>

lemma Server_Sync_cases:
  "Server_Sync V jwtSecret wq wr req =
     (case V (sync_Token req) jwtSecret of
        Inl err \<Rightarrow> Inl (InvalidToken err)
      | Inr claims \<Rightarrow>
          Inr \<lparr>Items = map modelItemToProtoItem
                          (map scan_item
                             (sort_key updated_at
                                (filter (\<lambda>r. user_id r = claims_UserID claims \<and>
                                              time_Unix (LastSyncTimestamp req) 0 < updated_at r)
                                   (data_items (store wq))))),
               SyncTimestamp = Unix (wall wr),
               Conflicts = []\<rparr>)"
  by (simp add: Server_Sync_def GetItemsModifiedAfter_def order_by_asc_def Let_def
      split: sum.splits)

text \<open>
  Claim C7, as the code has it. Whenever \<open>Server.Sync\<close> answers, its watermark is the
  server clock in whole seconds at the moment the response is built, after the storage
  query has returned; the items are those of the query, and the watermark does not depend
  on them. It answers for every valid token. A later synchronisation from that watermark
  delivers every item of the owner whose \<open>updated_at\<close> is strictly later than the
  watermark's second.
\<close>

theorem Sync_watermark_is_reply_clock:
  "(\<forall>resp. Server_Sync V jwtSecret wq wr req = Inr resp \<longrightarrow>
      SyncTimestamp resp = Unix (wall wr) \<and> Conflicts resp = [] \<and>
      (\<exists>claims items.
         V (sync_Token req) jwtSecret = Inr claims \<and>
         GetItemsModifiedAfter (store wq) (claims_UserID claims)
           (time_Unix (LastSyncTimestamp req) 0) = Inr items \<and>
         Items resp = map modelItemToProtoItem items)) \<and>
   (\<forall>claims. V (sync_Token req) jwtSecret = Inr claims \<longrightarrow>
      (\<exists>resp. Server_Sync V jwtSecret wq wr req = Inr resp)) \<and>
   (\<forall>claims r. V (sync_Token req) jwtSecret = Inr claims \<and>
      r \<in> set (data_items (store wq')) \<and> user_id r = claims_UserID claims \<and>
      time_Unix (Unix (wall wr)) 0 < updated_at r \<longrightarrow>
      (\<exists>resp'. Server_Sync V jwtSecret wq' wr' (req\<lparr>LastSyncTimestamp := Unix (wall wr)\<rparr>)
                  = Inr resp' \<and>
               modelItemToProtoItem (scan_item r) \<in> set (Items resp')))"
proof (intro conjI allI impI)
  fix resp
  assume a: "Server_Sync V jwtSecret wq wr req = Inr resp"
  then obtain claims where c: "V (sync_Token req) jwtSecret = Inr claims"
    by (cases "V (sync_Token req) jwtSecret") (simp_all add: Server_Sync_cases)
  with a have resp: "resp =
      \<lparr>Items = map modelItemToProtoItem
                  (map scan_item
                     (sort_key updated_at
                        (filter (\<lambda>r. user_id r = claims_UserID claims \<and>
                                      time_Unix (LastSyncTimestamp req) 0 < updated_at r)
                           (data_items (store wq))))),
       SyncTimestamp = Unix (wall wr),
       Conflicts = []\<rparr>"
    by (simp add: Server_Sync_cases)
  show "SyncTimestamp resp = Unix (wall wr)"
    by (simp add: resp)
  show "Conflicts resp = []"
    by (simp add: resp)
  show "\<exists>claims items.
         V (sync_Token req) jwtSecret = Inr claims \<and>
         GetItemsModifiedAfter (store wq) (claims_UserID claims)
           (time_Unix (LastSyncTimestamp req) 0) = Inr items \<and>
         Items resp = map modelItemToProtoItem items"
    using c by (simp add: resp GetItemsModifiedAfter_def order_by_asc_def)
next
  fix claims
  assume "V (sync_Token req) jwtSecret = Inr claims"
  then show "\<exists>resp. Server_Sync V jwtSecret wq wr req = Inr resp"
    by (simp add: Server_Sync_cases)
next
  fix claims r
  assume h: "V (sync_Token req) jwtSecret = Inr claims \<and>
      r \<in> set (data_items (store wq')) \<and> user_id r = claims_UserID claims \<and>
      time_Unix (Unix (wall wr)) 0 < updated_at r"
  then have "r \<in> set (sort_key updated_at
                        (filter (\<lambda>r. user_id r = claims_UserID claims \<and>
                                      time_Unix (Unix (wall wr)) 0 < updated_at r)
                           (data_items (store wq'))))"
    by simp
  then have "modelItemToProtoItem (scan_item r) \<in>
      set (map modelItemToProtoItem
             (map scan_item
                (sort_key updated_at
                   (filter (\<lambda>r. user_id r = claims_UserID claims \<and>
                                 time_Unix (Unix (wall wr)) 0 < updated_at r)
                      (data_items (store wq'))))))"
    unfolding set_map by (intro imageI)
  with h show "\<exists>resp'. Server_Sync V jwtSecret wq' wr' (req\<lparr>LastSyncTimestamp := Unix (wall wr)\<rparr>)
                  = Inr resp' \<and>
               modelItemToProtoItem (scan_item r) \<in> set (Items resp')"
    by (simp add: Server_Sync_cases)
qed

lemma db_concurrent_rows:
  "db_concurrent = \<lparr>users = [alice, bob], data_items = [github_row, notes_row, card_row, bank_row]\<rparr>"
  by (simp add: db_concurrent_def ref_db_def CreateItem_cases [OF new_item_arg]
      insert_data_items_def)
    (simp add: new_item_def alice_def bob_def github_row_def notes_row_def card_row_def
      bank_row_def)

text \<open>
  The query of a synchronisation from watermark 4 starts at 5.8 s and finds nothing; an
  item is created at 5.9 s; the response is built at 6.1 s and carries watermark 6, not
  the 5 of the start of the query. The next synchronisation, from 6, finds nothing: the
  item of 5.9 s is never delivered.
\<close>

theorem Sync_watermark_counterexample:
  "Server_Sync ref_validator ''k'' w_query w_reply \<lparr>sync_Token = ''u1'', LastSyncTimestamp = 4\<rparr>
     = Inr \<lparr>Items = [], SyncTimestamp = 6, Conflicts = []\<rparr> \<and>
   Unix (wall w_query) = 5 \<and>
   data_items (store w_query) = [github_row, notes_row, card_row] \<and>
   data_items (store w_reply) = [github_row, notes_row, card_row, bank_row] \<and>
   user_id bank_row = ''u1'' \<and> updated_at bank_row = 5900000000 \<and>
   wall w_query \<le> updated_at bank_row \<and>
   Server_Sync ref_validator ''k'' w_later w_later \<lparr>sync_Token = ''u1'', LastSyncTimestamp = 6\<rparr>
     = Inr \<lparr>Items = [], SyncTimestamp = 9, Conflicts = []\<rparr>"
  by (simp add: Server_Sync_cases ref_validator_def w_query_def w_reply_def w_later_def
      db_concurrent_rows ref_db_def github_row_def notes_row_def card_row_def bank_row_def
      time_Unix_def Unix_def)

theorem Sync_watermark_is_reply_clock_witness:
  "ref_validator ''u1'' ''k'' = Inr \<lparr>claims_UserID = ''u1'', claims_Username = ''u1''\<rparr> \<and>
   (\<exists>resp. Server_Sync ref_validator ''k'' w_query w_reply
             \<lparr>sync_Token = ''u1'', LastSyncTimestamp = 4\<rparr> = Inr resp \<and>
           SyncTimestamp resp = 6) \<and>
   bank_row \<in> set (data_items (store w_later)) \<and>
   time_Unix (Unix (wall w_query)) 0 < updated_at bank_row \<and>
   (\<exists>resp'. Server_Sync ref_validator ''k'' w_later w_later
              \<lparr>sync_Token = ''u1'', LastSyncTimestamp = 5\<rparr> = Inr resp' \<and>
            modelItemToProtoItem (scan_item bank_row) \<in> set (Items resp'))"
proof -
  note t = Sync_watermark_is_reply_clock [where V = ref_validator and jwtSecret = "''k''"
      and wq = w_query and wr = w_reply and wq' = w_later and wr' = w_later
      and req = "\<lparr>sync_Token = ''u1'', LastSyncTimestamp = 4\<rparr>"]
  note u = Sync_watermark_is_reply_clock [where V = ref_validator and jwtSecret = "''k''"
      and wq = w_query and wr = w_query and wq' = w_later and wr' = w_later
      and req = "\<lparr>sync_Token = ''u1'', LastSyncTimestamp = 4\<rparr>"]
  have v: "ref_validator ''u1'' ''k'' = Inr \<lparr>claims_UserID = ''u1'', claims_Username = ''u1''\<rparr>"
    by (simp add: ref_validator_def)
  from t have "\<forall>claims. ref_validator ''u1'' ''k'' = Inr claims \<longrightarrow>
      (\<exists>resp. Server_Sync ref_validator ''k'' w_query w_reply
                \<lparr>sync_Token = ''u1'', LastSyncTimestamp = 4\<rparr> = Inr resp)"
    by simp
  with v obtain resp where
    r: "Server_Sync ref_validator ''k'' w_query w_reply
          \<lparr>sync_Token = ''u1'', LastSyncTimestamp = 4\<rparr> = Inr resp"
    by blast
  with t have "SyncTimestamp resp = Unix (wall w_reply)"
    by blast
  then have s: "SyncTimestamp resp = 6"
    by (simp add: w_reply_def Unix_def)
  have b: "bank_row \<in> set (data_items (store w_later))"
    by (simp add: w_later_def db_concurrent_rows)
  have o: "user_id bank_row = ''u1''" and l: "time_Unix (Unix (wall w_query)) 0 < updated_at bank_row"
    and q: "Unix (wall w_query) = 5"
    by (simp_all add: bank_row_def w_query_def Unix_def time_Unix_def)
  from u v b o l have "\<exists>resp'. Server_Sync ref_validator ''k'' w_later w_later
              (\<lparr>sync_Token = ''u1'', LastSyncTimestamp = 4\<rparr>\<lparr>LastSyncTimestamp := Unix (wall w_query)\<rparr>)
                = Inr resp' \<and>
            modelItemToProtoItem (scan_item bank_row) \<in> set (Items resp')"
    by simp
  then have n: "\<exists>resp'. Server_Sync ref_validator ''k'' w_later w_later
              \<lparr>sync_Token = ''u1'', LastSyncTimestamp = 5\<rparr> = Inr resp' \<and>
            modelItemToProtoItem (scan_item bank_row) \<in> set (Items resp')"
    by (simp add: q)
  from v r s b l n show ?thesis
    by blast
qed

end
